theory Spec2Isabelle
  imports Main
begin

section \<open>JavaScript values\<close>

text \<open>
  The two clients of \<^verbatim>\<open>src/Discord/Bot.ts\<close> (class \<^verbatim>\<open>Client\<close>, the first
  revision in the file, lines 1 to 548) and \<^verbatim>\<open>src/Discord/Webhooks.ts\<close> (class
  \<^verbatim>\<open>WebhookUtils\<close>) handle response bodies of type \<^verbatim>\<open>any\<close>. They are modelled
  as the values \<^verbatim>\<open>JSON.parse\<close> can produce, together with \<^verbatim>\<open>undefined\<close>.
  Numbers are integers only; an object is the list of its own properties, the first
  entry of a key being the one that counts.
\<close>

datatype jsval =
    JUndefined
  | JNull
  | JBool bool
  | JNum int
  | JStr string
  | JArr "jsval list"
  | JObj "(string \<times> jsval) list"

text \<open>Truthiness, as \<^verbatim>\<open>if (v)\<close>, \<^verbatim>\<open>v ? a : b\<close> and \<^verbatim>\<open>v || w\<close> test it.\<close>

fun truthy :: "jsval \<Rightarrow> bool" where
  "truthy JUndefined = False"
| "truthy JNull = False"
| "truthy (JBool b) = b"
| "truthy (JNum n) = (n \<noteq> 0)"
| "truthy (JStr s) = (s \<noteq> [])"
| "truthy (JArr xs) = True"
| "truthy (JObj kvs) = True"

text \<open>Decimal digits of a number, for template literals.\<close>

fun show_nat :: "nat \<Rightarrow> string" where
  "show_nat n =
     (if n < 10 then [''0123456789'' ! n]
      else show_nat (n div 10) @ [''0123456789'' ! (n mod 10)])"

declare show_nat.simps [simp del]

definition show_int :: "int \<Rightarrow> string" where
  "show_int i = (if i < 0 then CHR ''-'' # show_nat (nat (- i)) else show_nat (nat i))"

fun join_comma :: "string list \<Rightarrow> string" where
  "join_comma [] = []"
| "join_comma [s] = s"
| "join_comma (s # t # ss) = s @ CHR '','' # join_comma (t # ss)"

text \<open>
  String conversion of a value inside a template literal \<^verbatim>\<open>`${v}`\<close>: an array joins
  its elements with commas (\<^verbatim>\<open>null\<close> and \<^verbatim>\<open>undefined\<close> elements as the empty
  string), an object prints as \<^verbatim>\<open>[object Object]\<close>. The conversion is exact for
  strings, \<^verbatim>\<open>null\<close>, \<^verbatim>\<open>undefined\<close>, booleans and integers of magnitude up to
  \<open>2\<^sup>5\<^sup>3\<close>. It is not exact beyond that: JavaScript holds a larger number as
  the nearest double and prints that, and it throws a \<^verbatim>\<open>TypeError\<close> for an object
  that has a \<^verbatim>\<open>toString\<close> property of its own (which is never callable in a parsed
  body). The properties below that depend on the conversion are stated for strings and
  \<^verbatim>\<open>null\<close> only.
\<close>

fun to_string :: "jsval \<Rightarrow> string" where
  "to_string JUndefined = ''undefined''"
| "to_string JNull = ''null''"
| "to_string (JBool b) = (if b then ''true'' else ''false'')"
| "to_string (JNum n) = show_int n"
| "to_string (JStr s) = s"
| "to_string (JArr xs) =
     join_comma (map (\<lambda>x. if x = JUndefined \<or> x = JNull then [] else to_string x) xs)"
| "to_string (JObj kvs) = ''[object Object]''"

section \<open>Errors, requests, responses\<close>

datatype error_kind = AxiosError | TypeError | FsError | PlainError

record http_response =
  status :: nat
  statusText :: string
  data :: jsval

text \<open>
  A thrown value. Every error object has a \<^verbatim>\<open>message\<close>; an Axios error raised for
  an HTTP error status also carries the server's \<^verbatim>\<open>response\<close>, every other error
  has none (\<^verbatim>\<open>error.response\<close> is \<^verbatim>\<open>undefined\<close>).
\<close>

record js_error =
  kind :: error_kind
  message :: string
  response :: "http_response option"

definition type_error :: "string \<Rightarrow> js_error" where
  "type_error m = \<lparr>kind = TypeError, message = m, response = None\<rparr>"

text \<open>The message of the \<^verbatim>\<open>TypeError\<close> for a property read on \<^verbatim>\<open>undefined\<close> or \<^verbatim>\<open>null\<close>.\<close>

definition cannot_read :: "string \<Rightarrow> string \<Rightarrow> string" where
  "cannot_read what k =
     ''Cannot read properties of '' @ what @ '' (reading '' @ [CHR 0x27] @ k @ [CHR 0x27] @ '')''"

text \<open>
  Property access \<^verbatim>\<open>v.k\<close> for a key \<open>k\<close> that no prototype defines (the code reads
  \<^verbatim>\<open>type\<close>, \<^verbatim>\<open>recipients\<close>, \<^verbatim>\<open>id\<close> and \<^verbatim>\<open>token\<close>): a \<^verbatim>\<open>TypeError\<close> on
  \<^verbatim>\<open>undefined\<close> and \<^verbatim>\<open>null\<close>, the own property of an object, and
  \<^verbatim>\<open>undefined\<close> everywhere else.
\<close>

fun get_prop :: "jsval \<Rightarrow> string \<Rightarrow> js_error + jsval" where
  "get_prop JUndefined k = Inl (type_error (cannot_read ''undefined'' k))"
| "get_prop JNull k = Inl (type_error (cannot_read ''null'' k))"
| "get_prop (JObj kvs) k = Inr (case map_of kvs k of None \<Rightarrow> JUndefined | Some v \<Rightarrow> v)"
| "get_prop v k = Inr JUndefined"

text \<open>
  Element access \<^verbatim>\<open>v[0]\<close>: the first element of an array or \<^verbatim>\<open>undefined\<close> when
  it is empty; the first character of a string (the code only reads \<^verbatim>\<open>.id\<close> of it,
  which is \<^verbatim>\<open>undefined\<close> for every string); the property \<^verbatim>\<open>"0"\<close> of an object.
\<close>

fun get_index0 :: "jsval \<Rightarrow> js_error + jsval" where
  "get_index0 JUndefined = Inl (type_error (cannot_read ''undefined'' ''0''))"
| "get_index0 JNull = Inl (type_error (cannot_read ''null'' ''0''))"
| "get_index0 (JArr xs) = Inr (case xs of [] \<Rightarrow> JUndefined | x # _ \<Rightarrow> x)"
| "get_index0 (JStr s) = Inr (case s of [] \<Rightarrow> JUndefined | c # _ \<Rightarrow> JStr [c])"
| "get_index0 (JObj kvs) = Inr (case map_of kvs ''0'' of None \<Rightarrow> JUndefined | Some v \<Rightarrow> v)"
| "get_index0 v = Inr JUndefined"

datatype http_method = GET | POST | PUT | DELETE | PATCH

text \<open>A part of a multipart form: a file (its name and bytes) or a text field.\<close>

datatype form_part = FilePart string string | TextPart string

text \<open>
  The body handed to Axios: a JavaScript value (\<^verbatim>\<open>undefined\<close> when the call passes
  none) or a multipart form.
\<close>

datatype payload = Json jsval | Form "(string \<times> form_part) list"

text \<open>
  One HTTP request as the code hands it to Axios: the verb, the URL, the body and the
  headers the code sets itself.
\<close>

record request =
  verb :: http_method
  url :: string
  body :: payload
  headers :: "(string \<times> string) list"

section \<open>The world: transport, console, file system\<close>

datatype stream = Stdout | Stderr

text \<open>
  An argument of a console call. A message that the source builds by concatenation is
  the list of its pieces; \<open>LNum\<close> is a number printed in decimal, \<open>LKb n\<close> the
  quotient \<open>n / 1024\<close> as JavaScript prints it, \<open>LErr\<close> an error object. Colouring by
  \<^verbatim>\<open>chalk\<close> is left out.
\<close>

datatype logarg = LStr string | LNum nat | LKb nat | LVal jsval | LErr js_error

datatype event = Sent request | Console stream "logarg list"

text \<open>
  The transport answers a request with a response or rejects with an error; its answer
  may depend on the requests it has received before.
\<close>

type_synonym transport = "request list \<Rightarrow> request \<Rightarrow> js_error + http_response"

text \<open>
  An asynchronous computation: from the trace of events so far to its outcome
  (\<open>Inl\<close> a rejection, \<open>Inr\<close> the resolved value) and the extended trace.
\<close>

type_synonym 'a io = "event list \<Rightarrow> (js_error + 'a) \<times> event list"

fun sent :: "event list \<Rightarrow> request list" where
  "sent [] = []"
| "sent (Sent r # es) = r # sent es"
| "sent (Console s args # es) = sent es"

text \<open>The requests a computation issues when it starts from the trace \<open>tr\<close>.\<close>

definition issued :: "'a io \<Rightarrow> event list \<Rightarrow> request list" where
  "issued m tr = drop (length (sent tr)) (sent (snd (m tr)))"

definition return :: "'a \<Rightarrow> 'a io" where
  "return v = (\<lambda>tr. (Inr v, tr))"

definition throw :: "js_error \<Rightarrow> 'a io" where
  "throw e = (\<lambda>tr. (Inl e, tr))"

definition bind :: "'a io \<Rightarrow> ('a \<Rightarrow> 'b io) \<Rightarrow> 'b io" where
  "bind m f = (\<lambda>tr. case m tr of (Inl e, tr') \<Rightarrow> (Inl e, tr') | (Inr v, tr') \<Rightarrow> f v tr')"

definition try_catch :: "'a io \<Rightarrow> (js_error \<Rightarrow> 'a io) \<Rightarrow> 'a io" where
  "try_catch m h = (\<lambda>tr. case m tr of (Inl e, tr') \<Rightarrow> h e tr' | (Inr v, tr') \<Rightarrow> (Inr v, tr'))"

definition lift :: "js_error + 'a \<Rightarrow> 'a io" where
  "lift r = (\<lambda>tr. (r, tr))"

definition console :: "stream \<Rightarrow> logarg list \<Rightarrow> unit io" where
  "console s args = (\<lambda>tr. (Inr (), tr @ [Console s args]))"

definition axios :: "transport \<Rightarrow> request \<Rightarrow> http_response io" where
  "axios t req = (\<lambda>tr. (t (sent tr) req, tr @ [Sent req]))"

text \<open>
  A call whose promise is dropped (not awaited): its request is issued and its console
  output appears, but neither its value nor its rejection reaches the caller.
\<close>

definition detached :: "'a io \<Rightarrow> unit io" where
  "detached m = (\<lambda>tr. (Inr (), snd (m tr)))"

text \<open>
  \<^verbatim>\<open>error.response?.data || error.message\<close>: the server's payload when the error
  carries a response with a truthy body, the error's message otherwise.
\<close>

definition error_detail :: "js_error \<Rightarrow> logarg" where
  "error_detail error =
     (case response error of
        None \<Rightarrow> LStr (message error)
      | Some r \<Rightarrow> if truthy (data r) then LVal (data r) else LStr (message error))"

text \<open>
  \<^verbatim>\<open>encodeURIComponent\<close> on a string held as its UTF-8 bytes: every byte but the
  unreserved ones becomes \<^verbatim>\<open>%XX\<close>.
\<close>

definition unreserved :: "char \<Rightarrow> bool" where
  "unreserved c =
     (c \<in> set (''ABCDEFGHIJKLMNOPQRSTUVWXYZabcdefghijklmnopqrstuvwxyz0123456789-_.!~*()''
                 @ [CHR 0x27]))"

definition percent :: "char \<Rightarrow> string" where
  "percent c =
     [CHR ''%'', ''0123456789ABCDEF'' ! ((of_char c :: nat) div 16),
      ''0123456789ABCDEF'' ! ((of_char c :: nat) mod 16)]"

definition encodeURIComponent :: "string \<Rightarrow> string" where
  "encodeURIComponent s = concat (map (\<lambda>c. if unreserved c then [c] else percent c) s)"

section \<open>The bot client (Bot.ts)\<close>

record client =
  token :: string
  logging :: bool

definition logs_notice :: string where
  "logs_notice =
     ''LOGS - logs are enabled by default'' @ [CHR 0x0A] @
     ''     if you would like to disable logs, set'' @ [CHR 0x0A] @
     ''     '' @ [CHR 0x22] @ ''log: false'' @ [CHR 0x22] @ [CHR 0x0A] @
     ''     in the Client constructor'' @ [CHR 0x0A]"

text \<open>
  \<^verbatim>\<open>constructor(token: BotToken, logs: boolean = false)\<close>. \<open>None\<close> is an omitted
  \<^verbatim>\<open>logs\<close> argument, which takes the default. The token is stored unchecked.
\<close>

definition new_Client :: "string \<Rightarrow> bool option \<Rightarrow> client io" where
  "new_Client tok logs =
     (let this = \<lparr>token = tok, logging = (case logs of None \<Rightarrow> False | Some b \<Rightarrow> b)\<rparr>
      in if logging this = True then return this
         else if logging this = False then
           bind (console Stdout [LStr logs_notice])
             (\<lambda>_. return (this\<lparr>logging := True\<rparr>))
         else return this)"

definition auth_header :: "client \<Rightarrow> string \<times> string" where
  "auth_header c = (''Authorization'', ''Bot '' @ token c)"

text \<open>
  The request that \<^verbatim>\<open>makeRequest(endpoint, method, data?)\<close> builds: the endpoint
  under the v10 base URL, with the two headers.
\<close>

definition api_request :: "client \<Rightarrow> string \<Rightarrow> http_method \<Rightarrow> jsval \<Rightarrow> request" where
  "api_request c endpoint m d =
     \<lparr>verb = m, url = ''https://discord.com/api/v10'' @ endpoint, body = Json d,
      headers = [auth_header c, (''Content-Type'', ''application/json'')]\<rparr>"

text \<open>
  The generic dispatcher \<^verbatim>\<open>makeRequest(endpoint, method, data?)\<close>, as lines 39 to 66
  have it. (The second revision of the class in the same file prints the label
  \<^verbatim>\<open>Axios Error:\<close> and the message for an error that is not an Axios error, and is
  the same otherwise.)
\<close>

definition makeRequest ::
  "transport \<Rightarrow> client \<Rightarrow> string \<Rightarrow> http_method \<Rightarrow> jsval \<Rightarrow> jsval io" where
  "makeRequest t c endpoint m d =
     try_catch
       (bind (axios t (api_request c endpoint m d))
          (\<lambda>response.
             bind (if logging c
                   then console Stdout [LStr ''response sent to endpoint: '', LStr endpoint]
                   else return ())
               (\<lambda>_. return (data response))))
       (\<lambda>error.
          bind (console Stderr [LStr ''Discord API Error:'', error_detail error])
            (\<lambda>_. throw error))"

datatype channel_kind = TextChannel | VoiceChannel

fun channel_kind_str :: "channel_kind \<Rightarrow> string" where
  "channel_kind_str TextChannel = ''text''"
| "channel_kind_str VoiceChannel = ''voice''"

datatype bot_status = Online | Idle | Dnd | Invisible

fun bot_status_str :: "bot_status \<Rightarrow> string" where
  "bot_status_str Online = ''online''"
| "bot_status_str Idle = ''idle''"
| "bot_status_str Dnd = ''dnd''"
| "bot_status_str Invisible = ''invisible''"

definition sendMessage :: "transport \<Rightarrow> client \<Rightarrow> jsval \<Rightarrow> string \<Rightarrow> jsval io" where
  "sendMessage t c channelId content =
     makeRequest t c (''/channels/'' @ to_string channelId @ ''/messages'') POST
       (JObj [(''content'', JStr content)])"

definition getUser :: "transport \<Rightarrow> client \<Rightarrow> string \<Rightarrow> jsval io" where
  "getUser t c userId = makeRequest t c (''/users/'' @ userId) GET JUndefined"

definition getGuild :: "transport \<Rightarrow> client \<Rightarrow> string \<Rightarrow> jsval io" where
  "getGuild t c guildId = makeRequest t c (''/guilds/'' @ guildId) GET JUndefined"

definition createChannel ::
  "transport \<Rightarrow> client \<Rightarrow> string \<Rightarrow> string \<Rightarrow> channel_kind \<Rightarrow> jsval io" where
  "createChannel t c guildId name ty =
     makeRequest t c (''/guilds/'' @ guildId @ ''/channels'') POST
       (JObj [(''name'', JStr name), (''type'', JStr (channel_kind_str ty))])"

definition kickMember :: "transport \<Rightarrow> client \<Rightarrow> string \<Rightarrow> string \<Rightarrow> jsval io" where
  "kickMember t c guildId userId =
     makeRequest t c (''/guilds/'' @ guildId @ ''/members/'' @ userId) DELETE JUndefined"

definition getChannelMessages :: "transport \<Rightarrow> client \<Rightarrow> string \<Rightarrow> jsval io" where
  "getChannelMessages t c channelId =
     makeRequest t c (''/channels/'' @ channelId @ ''/messages'') GET JUndefined"

definition addReaction ::
  "transport \<Rightarrow> client \<Rightarrow> string \<Rightarrow> string \<Rightarrow> string \<Rightarrow> jsval io" where
  "addReaction t c channelId messageId emoji =
     makeRequest t c
       (''/channels/'' @ channelId @ ''/messages/'' @ messageId @ ''/reactions/''
          @ encodeURIComponent emoji @ ''/@me'')
       PUT JUndefined"

definition removeReaction ::
  "transport \<Rightarrow> client \<Rightarrow> string \<Rightarrow> string \<Rightarrow> string \<Rightarrow> string \<Rightarrow> jsval io" where
  "removeReaction t c channelId messageId emoji userId =
     makeRequest t c
       (''/channels/'' @ channelId @ ''/messages/'' @ messageId @ ''/reactions/''
          @ encodeURIComponent emoji @ ''/'' @ userId)
       DELETE JUndefined"

definition getMemberRoles :: "transport \<Rightarrow> client \<Rightarrow> string \<Rightarrow> string \<Rightarrow> jsval io" where
  "getMemberRoles t c guildId userId =
     makeRequest t c (''/guilds/'' @ guildId @ ''/members/'' @ userId) GET JUndefined"

definition getGuildChannels :: "transport \<Rightarrow> client \<Rightarrow> string \<Rightarrow> jsval io" where
  "getGuildChannels t c guildId =
     makeRequest t c (''/guilds/'' @ guildId @ ''/channels'') GET JUndefined"

definition editMessage ::
  "transport \<Rightarrow> client \<Rightarrow> string \<Rightarrow> string \<Rightarrow> string \<Rightarrow> jsval io" where
  "editMessage t c channelId messageId content =
     makeRequest t c (''/channels/'' @ channelId @ ''/messages/'' @ messageId) PUT
       (JObj [(''content'', JStr content)])"

definition getMembers :: "transport \<Rightarrow> client \<Rightarrow> string \<Rightarrow> jsval io" where
  "getMembers t c guildId =
     makeRequest t c (''/guilds/'' @ guildId @ ''/members'') GET JUndefined"

definition createEmoji ::
  "transport \<Rightarrow> client \<Rightarrow> string \<Rightarrow> string \<Rightarrow> string \<Rightarrow> jsval io" where
  "createEmoji t c guildId name img =
     makeRequest t c (''/guilds/'' @ guildId @ ''/emojis'') POST
       (JObj [(''name'', JStr name), (''image'', JStr img)])"

definition getEmojis :: "transport \<Rightarrow> client \<Rightarrow> string \<Rightarrow> jsval io" where
  "getEmojis t c guildId =
     makeRequest t c (''/guilds/'' @ guildId @ ''/emojis'') GET JUndefined"

definition getRoles :: "transport \<Rightarrow> client \<Rightarrow> string \<Rightarrow> jsval io" where
  "getRoles t c guildId =
     makeRequest t c (''/guilds/'' @ guildId @ ''/roles'') GET JUndefined"

definition deleteMessage :: "transport \<Rightarrow> client \<Rightarrow> string \<Rightarrow> string \<Rightarrow> jsval io" where
  "deleteMessage t c channelId messageId =
     makeRequest t c (''/channels/'' @ channelId @ ''/messages/'' @ messageId) DELETE
       JUndefined"

definition editRole :: "transport \<Rightarrow> client \<Rightarrow> string \<Rightarrow> string \<Rightarrow> jsval \<Rightarrow> jsval io" where
  "editRole t c guildId roleId d =
     makeRequest t c (''/guilds/'' @ guildId @ ''/roles/'' @ roleId) PATCH d"

definition getRoleUsers :: "transport \<Rightarrow> client \<Rightarrow> string \<Rightarrow> string \<Rightarrow> jsval io" where
  "getRoleUsers t c guildId roleId =
     makeRequest t c (''/guilds/'' @ guildId @ ''/roles/'' @ roleId @ ''/members'') GET
       JUndefined"

definition editUsername :: "transport \<Rightarrow> client \<Rightarrow> string \<Rightarrow> jsval io" where
  "editUsername t c username =
     makeRequest t c ''/users/@me'' PATCH (JObj [(''username'', JStr username)])"

definition editAvatar :: "transport \<Rightarrow> client \<Rightarrow> string \<Rightarrow> jsval io" where
  "editAvatar t c avatar =
     makeRequest t c ''/users/@me'' PATCH (JObj [(''avatar'', JStr avatar)])"

definition editStatus :: "transport \<Rightarrow> client \<Rightarrow> bot_status \<Rightarrow> jsval io" where
  "editStatus t c st =
     makeRequest t c ''/users/@me/settings'' PATCH
       (JObj [(''status'', JStr (bot_status_str st))])"

definition getBotGateway :: "transport \<Rightarrow> client \<Rightarrow> jsval io" where
  "getBotGateway t c = makeRequest t c ''/gateway/bot'' GET JUndefined"

definition info :: "transport \<Rightarrow> client \<Rightarrow> jsval io" where
  "info t c = makeRequest t c ''/users/@me'' GET JUndefined"

definition getGuilds :: "transport \<Rightarrow> client \<Rightarrow> jsval io" where
  "getGuilds t c = makeRequest t c ''/users/@me/guilds'' GET JUndefined"

definition leaveGuild :: "transport \<Rightarrow> client \<Rightarrow> string \<Rightarrow> jsval io" where
  "leaveGuild t c guildId =
     makeRequest t c (''/users/@me/guilds/'' @ guildId) DELETE JUndefined"

definition getConnections :: "transport \<Rightarrow> client \<Rightarrow> jsval io" where
  "getConnections t c = makeRequest t c ''/users/@me/connections'' GET JUndefined"

subsection \<open>The DM helpers\<close>

text \<open>
  \<^verbatim>\<open>Array.prototype.find\<close> with a callback that may throw: the first element the
  callback accepts, \<^verbatim>\<open>undefined\<close> when there is none; elements after the first
  accepted one are not visited.
\<close>

fun find_js :: "(jsval \<Rightarrow> js_error + bool) \<Rightarrow> jsval list \<Rightarrow> js_error + jsval" where
  "find_js p [] = Inr JUndefined"
| "find_js p (x # xs) =
     (case p x of Inl e \<Rightarrow> Inl e | Inr b \<Rightarrow> if b then Inr x else find_js p xs)"

text \<open>\<^verbatim>\<open>response.data.find(p)\<close>: only an array has the method.\<close>

definition data_find :: "jsval \<Rightarrow> (jsval \<Rightarrow> js_error + bool) \<Rightarrow> js_error + jsval" where
  "data_find d p =
     (case d of
        JArr xs \<Rightarrow> find_js p xs
      | JUndefined \<Rightarrow> Inl (type_error (cannot_read ''undefined'' ''find''))
      | JNull \<Rightarrow> Inl (type_error (cannot_read ''null'' ''find''))
      | _ \<Rightarrow> Inl (type_error ''response.data.find is not a function''))"

text \<open>
  The callback of \<^verbatim>\<open>isDmOpen\<close>:
  \<^verbatim>\<open>channel.type === 1 && channel.recipients[0].id === userId\<close>.
\<close>

definition is_dm_with :: "string \<Rightarrow> jsval \<Rightarrow> js_error + bool" where
  "is_dm_with userId channel =
     (case get_prop channel ''type'' of
        Inl e \<Rightarrow> Inl e
      | Inr ty \<Rightarrow>
          if ty \<noteq> JNum 1 then Inr False
          else (case get_prop channel ''recipients'' of
                  Inl e \<Rightarrow> Inl e
                | Inr rs \<Rightarrow>
                    (case get_index0 rs of
                       Inl e \<Rightarrow> Inl e
                     | Inr r0 \<Rightarrow>
                         (case get_prop r0 ''id'' of
                            Inl e \<Rightarrow> Inl e
                          | Inr i \<Rightarrow> Inr (i = JStr userId)))))"

definition dm_channels_url :: string where
  "dm_channels_url = ''https://discord.com/api/v9/users/@me/channels''"

text \<open>The two requests of the DM helpers, both against the v9 API.\<close>

definition dm_list_request :: "client \<Rightarrow> request" where
  "dm_list_request c =
     \<lparr>verb = GET, url = dm_channels_url, body = Json JUndefined,
      headers = [auth_header c]\<rparr>"

definition dm_create_request :: "client \<Rightarrow> string \<Rightarrow> request" where
  "dm_create_request c userId =
     \<lparr>verb = POST, url = dm_channels_url,
      body = Json (JObj [(''recipient_id'', JStr userId)]),
      headers = [auth_header c]\<rparr>"

definition isDmOpen :: "transport \<Rightarrow> client \<Rightarrow> string \<Rightarrow> jsval io" where
  "isDmOpen t c userId =
     try_catch
       (bind (axios t (dm_list_request c))
          (\<lambda>response.
             bind (lift (data_find (data response) (is_dm_with userId)))
               (\<lambda>dmChannel.
                  if truthy dmChannel then lift (get_prop dmChannel ''id'')
                  else return JNull)))
       (\<lambda>error.
          bind (console Stderr [LStr ''Error checking DM:'', error_detail error])
            (\<lambda>_. throw error))"

definition openOrGetDm :: "transport \<Rightarrow> client \<Rightarrow> string \<Rightarrow> jsval io" where
  "openOrGetDm t c userId =
     try_catch
       (bind (isDmOpen t c userId)
          (\<lambda>existingChannelId.
             if truthy existingChannelId then return existingChannelId
             else
               bind (axios t (dm_create_request c userId))
                 (\<lambda>response. lift (get_prop (data response) ''id''))))
       (\<lambda>error.
          bind (console Stderr [LStr ''Error opening DM:'', error_detail error])
            (\<lambda>_. throw error))"

text \<open>
  \<^verbatim>\<open>dm\<close> awaits the resolution of the channel, then calls \<^verbatim>\<open>sendMessage\<close> without
  awaiting it, and resolves to \<^verbatim>\<open>undefined\<close>.
\<close>

definition dm :: "transport \<Rightarrow> client \<Rightarrow> string \<Rightarrow> string \<Rightarrow> jsval io" where
  "dm t c userId msg =
     try_catch
       (bind (openOrGetDm t c userId)
          (\<lambda>user.
             bind (detached (sendMessage t c user msg))
               (\<lambda>_. return JUndefined)))
       (\<lambda>error.
          bind (console Stdout [LErr error])
            (\<lambda>_. return JUndefined))"

subsection \<open>Webhook management\<close>

text \<open>
  The handlers of \<^verbatim>\<open>createWebhook\<close> and \<^verbatim>\<open>deleteWebhook\<close> read
  \<^verbatim>\<open>error.response.data\<close> with no optional chaining: on an error that carries no
  response the handler itself throws a \<^verbatim>\<open>TypeError\<close>.
\<close>

definition response_data :: "js_error \<Rightarrow> js_error + jsval" where
  "response_data error =
     (case response error of
        None \<Rightarrow> Inl (type_error (cannot_read ''undefined'' ''data''))
      | Some r \<Rightarrow> Inr (data r))"

definition createWebhook ::
  "transport \<Rightarrow> client \<Rightarrow> string \<Rightarrow> string \<Rightarrow> string \<Rightarrow> jsval io" where
  "createWebhook t c channelId webhookName webhookImage =
     try_catch
       (bind (axios t \<lparr>verb = POST,
                        url = ''https://discord.com/api/v9/channels/'' @ channelId @ ''/webhooks'',
                        body = Json (JObj [(''name'', JStr webhookName),
                                           (''avatar'', JStr webhookImage)]),
                        headers = [auth_header c]\<rparr>)
          (\<lambda>response.
             let webhook = data response in
             bind (if logging c
                   then console Stdout [LStr ''Webhook created successfully:'', LVal webhook]
                   else return ())
               (\<lambda>_. bind (lift (get_prop webhook ''id''))
                  (\<lambda>wid. bind (lift (get_prop webhook ''token''))
                     (\<lambda>wtoken.
                        bind (console Stdout
                                [LStr ''Webhook URL:'',
                                 LStr (''https://discord.com/api/webhooks/'' @ to_string wid
                                         @ ''/'' @ to_string wtoken)])
                          (\<lambda>_. return webhook))))))
       (\<lambda>error.
          bind (lift (response_data error))
            (\<lambda>d. bind (console Stderr [LStr ''Error creating webhook:'', LVal d])
               (\<lambda>_. return JNull)))"

definition deleteWebhook :: "transport \<Rightarrow> client \<Rightarrow> string \<Rightarrow> jsval io" where
  "deleteWebhook t c webhookId =
     try_catch
       (bind (axios t \<lparr>verb = DELETE,
                        url = ''https://discord.com/api/v9/webhooks/'' @ webhookId,
                        body = Json JUndefined,
                        headers = [auth_header c]\<rparr>)
          (\<lambda>_.
             bind (if logging c
                   then console Stdout [LStr ''Webhook deleted successfully: '', LStr webhookId]
                   else return ())
               (\<lambda>_. return JUndefined)))
       (\<lambda>error.
          bind (lift (response_data error))
            (\<lambda>d. bind (console Stderr [LStr ''Error deleting webhook:'', LVal d])
               (\<lambda>_. return JUndefined)))"

text \<open>
  The image-download helper. Only the second revision of the class in \<^verbatim>\<open>Bot.ts\<close> has
  it: \<^verbatim>\<open>axios.get(url, {responseType: 'arraybuffer'})\<close>, with no header of its own and
  no handler; the bytes of the answer are the result.
\<close>

definition downloadImage :: "transport \<Rightarrow> client \<Rightarrow> string \<Rightarrow> jsval io" where
  "downloadImage t c image_url =
     bind (axios t \<lparr>verb = GET, url = image_url, body = Json JUndefined, headers = []\<rparr>)
       (\<lambda>response. return (data response))"

subsection \<open>The operations of the bot client, as one type\<close>

datatype bot_op =
    SendMessage jsval string
  | GetUser string
  | GetGuild string
  | CreateChannel string string channel_kind
  | KickMember string string
  | GetChannelMessages string
  | AddReaction string string string
  | RemoveReaction string string string string
  | GetMemberRoles string string
  | GetGuildChannels string
  | EditMessage string string string
  | GetMembers string
  | CreateEmoji string string string
  | GetEmojis string
  | GetRoles string
  | DeleteMessage string string
  | EditRole string string jsval
  | GetRoleUsers string string
  | EditUsername string
  | EditAvatar string
  | EditStatus bot_status
  | GetBotGateway
  | Info
  | GetGuilds
  | LeaveGuild string
  | GetConnections
  | IsDmOpen string
  | Dm string string
  | OpenOrGetDm string
  | CreateWebhook string string string
  | DeleteWebhook string
  | DownloadImage string

fun bot_call :: "transport \<Rightarrow> client \<Rightarrow> bot_op \<Rightarrow> jsval io" where
  "bot_call t c (SendMessage channelId content) = sendMessage t c channelId content"
| "bot_call t c (GetUser userId) = getUser t c userId"
| "bot_call t c (GetGuild guildId) = getGuild t c guildId"
| "bot_call t c (CreateChannel guildId name ty) = createChannel t c guildId name ty"
| "bot_call t c (KickMember guildId userId) = kickMember t c guildId userId"
| "bot_call t c (GetChannelMessages channelId) = getChannelMessages t c channelId"
| "bot_call t c (AddReaction channelId messageId emoji) =
     addReaction t c channelId messageId emoji"
| "bot_call t c (RemoveReaction channelId messageId emoji userId) =
     removeReaction t c channelId messageId emoji userId"
| "bot_call t c (GetMemberRoles guildId userId) = getMemberRoles t c guildId userId"
| "bot_call t c (GetGuildChannels guildId) = getGuildChannels t c guildId"
| "bot_call t c (EditMessage channelId messageId content) =
     editMessage t c channelId messageId content"
| "bot_call t c (GetMembers guildId) = getMembers t c guildId"
| "bot_call t c (CreateEmoji guildId name img) = createEmoji t c guildId name img"
| "bot_call t c (GetEmojis guildId) = getEmojis t c guildId"
| "bot_call t c (GetRoles guildId) = getRoles t c guildId"
| "bot_call t c (DeleteMessage channelId messageId) = deleteMessage t c channelId messageId"
| "bot_call t c (EditRole guildId roleId d) = editRole t c guildId roleId d"
| "bot_call t c (GetRoleUsers guildId roleId) = getRoleUsers t c guildId roleId"
| "bot_call t c (EditUsername username) = editUsername t c username"
| "bot_call t c (EditAvatar avatar) = editAvatar t c avatar"
| "bot_call t c (EditStatus st) = editStatus t c st"
| "bot_call t c GetBotGateway = getBotGateway t c"
| "bot_call t c Info = info t c"
| "bot_call t c GetGuilds = getGuilds t c"
| "bot_call t c (LeaveGuild guildId) = leaveGuild t c guildId"
| "bot_call t c GetConnections = getConnections t c"
| "bot_call t c (IsDmOpen userId) = isDmOpen t c userId"
| "bot_call t c (Dm userId msg) = dm t c userId msg"
| "bot_call t c (OpenOrGetDm userId) = openOrGetDm t c userId"
| "bot_call t c (CreateWebhook channelId webhookName webhookImage) =
     createWebhook t c channelId webhookName webhookImage"
| "bot_call t c (DeleteWebhook webhookId) = deleteWebhook t c webhookId"
| "bot_call t c (DownloadImage image_url) = downloadImage t c image_url"

section \<open>The webhook client (Webhooks.ts)\<close>

record webhook_utils =
  webhookUrl :: string

text \<open>\<^verbatim>\<open>constructor(hook: string)\<close>: \<^verbatim>\<open>!hook\<close> holds of the empty string.\<close>

definition new_WebhookUtils :: "string \<Rightarrow> js_error + webhook_utils" where
  "new_WebhookUtils hook =
     (if hook = []
      then Inl \<lparr>kind = PlainError, message = ''No webhook URL provided'', response = None\<rparr>
      else Inr \<lparr>webhookUrl = hook\<rparr>)"

text \<open>The file system: the bytes of every file that exists, by path.\<close>

type_synonym filesystem = "string \<Rightarrow> string option"

definition enoent :: "string \<Rightarrow> string \<Rightarrow> js_error" where
  "enoent syscall path =
     \<lparr>kind = FsError,
      message = ''ENOENT: no such file or directory, '' @ syscall @ '' '' @ [CHR 0x27] @ path
                  @ [CHR 0x27],
      response = None\<rparr>"

definition readFileSync :: "filesystem \<Rightarrow> string \<Rightarrow> js_error + string" where
  "readFileSync fs path =
     (case fs path of None \<Rightarrow> Inl (enoent ''open'' path) | Some bytes \<Rightarrow> Inr bytes)"

text \<open>\<^verbatim>\<open>fs.statSync(path).size\<close>.\<close>

definition statSync_size :: "filesystem \<Rightarrow> string \<Rightarrow> js_error + nat" where
  "statSync_size fs path =
     (case fs path of None \<Rightarrow> Inl (enoent ''stat'' path) | Some bytes \<Rightarrow> Inr (length bytes))"

text \<open>\<^verbatim>\<open>path.basename\<close> for POSIX paths: the last component, trailing slashes dropped.\<close>

definition basename :: "string \<Rightarrow> string" where
  "basename path =
     rev (takeWhile (\<lambda>c. c \<noteq> CHR ''/'') (dropWhile (\<lambda>c. c = CHR ''/'') (rev path)))"

text \<open>\<^verbatim>\<open>Buffer.toString('base64')\<close>.\<close>

definition b64_char :: "nat \<Rightarrow> char" where
  "b64_char n =
     ''ABCDEFGHIJKLMNOPQRSTUVWXYZabcdefghijklmnopqrstuvwxyz0123456789+/'' ! n"

fun base64_bytes :: "nat list \<Rightarrow> string" where
  "base64_bytes [] = []"
| "base64_bytes [a] =
     [b64_char (a div 4), b64_char ((a mod 4) * 16), CHR ''='', CHR ''='']"
| "base64_bytes [a, b] =
     [b64_char (a div 4), b64_char ((a mod 4) * 16 + b div 16),
      b64_char ((b mod 16) * 4), CHR ''='']"
| "base64_bytes (a # b # c # rest) =
     [b64_char (a div 4), b64_char ((a mod 4) * 16 + b div 16),
      b64_char ((b mod 16) * 4 + c div 64), b64_char (c mod 64)] @ base64_bytes rest"

definition base64 :: "string \<Rightarrow> string" where
  "base64 bytes = base64_bytes (map of_char bytes)"

text \<open>
  The headers of a multipart form (\<^verbatim>\<open>formData.getHeaders()\<close>); the random boundary
  parameter is left out.
\<close>

definition form_headers :: "(string \<times> string) list" where
  "form_headers = [(''content-type'', ''multipart/form-data'')]"

definition setRateLimit :: "transport \<Rightarrow> webhook_utils \<Rightarrow> int \<Rightarrow> jsval io" where
  "setRateLimit t w rateLimitPerUser =
     try_catch
       (bind (axios t \<lparr>verb = PATCH, url = webhookUrl w,
                        body = Json (JObj [(''rate_limit_per_user'', JNum rateLimitPerUser)]),
                        headers = []\<rparr>)
          (\<lambda>_. return JUndefined))
       (\<lambda>error.
          bind (console Stdout [LStr (message error)])
            (\<lambda>_. return JUndefined))"

definition setWebhookOwner :: "transport \<Rightarrow> webhook_utils \<Rightarrow> string \<Rightarrow> jsval io" where
  "setWebhookOwner t w userID =
     bind (axios t \<lparr>verb = PATCH, url = webhookUrl w,
                     body = Json (JObj [(''owner_id'', JStr userID)]),
                     headers = []\<rparr>)
       (\<lambda>_. return JUndefined)"

definition sendFile ::
  "transport \<Rightarrow> filesystem \<Rightarrow> webhook_utils \<Rightarrow> string \<Rightarrow> string \<Rightarrow> jsval io" where
  "sendFile t fs w msg filePath =
     try_catch
       (bind (lift (readFileSync fs filePath))
          (\<lambda>fileData.
             let fileName = basename filePath in
             bind (lift (statSync_size fs filePath))
               (\<lambda>fileSizeInBytes.
                  bind (console Stdout
                          [LStr ''File size: '', LNum fileSizeInBytes, LStr '' bytes ('',
                           LKb fileSizeInBytes, LStr '' KB)''])
                    (\<lambda>_.
                       bind (axios t \<lparr>verb = POST, url = webhookUrl w,
                                        body = Form [(''file'', FilePart fileName fileData),
                                                     (''content'', TextPart msg)],
                                        headers = form_headers\<rparr>)
                         (\<lambda>response.
                            bind (console Stdout
                                    [LStr ''Webhook status: '', LNum (status response),
                                     LStr '' - '', LStr (statusText response)])
                              (\<lambda>_. return JUndefined))))))
       (\<lambda>error.
          bind (console Stderr [LStr ''Error sending file to Discord: '', LStr (message error)])
            (\<lambda>_. return JUndefined))"

definition sendMessage_wh :: "transport \<Rightarrow> webhook_utils \<Rightarrow> string \<Rightarrow> jsval io" where
  "sendMessage_wh t w msg =
     try_catch
       (bind (axios t \<lparr>verb = POST, url = webhookUrl w,
                        body = Json (JObj [(''content'', JStr msg)]),
                        headers = []\<rparr>)
          (\<lambda>response.
             bind (console Stdout
                     [LStr ''Message sent successfully. Status: '', LNum (status response),
                      LStr '' - '', LStr (statusText response)])
               (\<lambda>_. return JUndefined)))
       (\<lambda>error.
          bind (console Stderr [LStr ''Error sending message. Status: '', LStr (message error)])
            (\<lambda>_. return JUndefined))"

text \<open>The image is read before the \<^verbatim>\<open>try\<close> block of \<^verbatim>\<open>updateWebhook\<close>.\<close>

definition updateWebhook ::
  "transport \<Rightarrow> filesystem \<Rightarrow> webhook_utils \<Rightarrow> string \<Rightarrow> string \<Rightarrow> jsval io" where
  "updateWebhook t fs w imagePath newName =
     bind (lift (readFileSync fs imagePath))
       (\<lambda>img.
          try_catch
            (bind (axios t \<lparr>verb = PATCH, url = webhookUrl w,
                             body = Json (JObj [(''avatar'',
                                      JStr (''data:image/jpeg;base64,'' @ base64 img))]),
                             headers = []\<rparr>)
               (\<lambda>_.
                  bind (axios t \<lparr>verb = PATCH, url = webhookUrl w,
                                   body = Json (JObj [(''name'', JStr newName)]),
                                   headers = []\<rparr>)
                    (\<lambda>_.
                       bind (console Stdout [LStr ''Webhook updated successfully!''])
                         (\<lambda>_. return JUndefined))))
            (\<lambda>error.
               bind (console Stderr [LStr ''Error updating webhook:'', LErr error])
                 (\<lambda>_. return JUndefined)))"

definition deleteMessage_wh :: "transport \<Rightarrow> webhook_utils \<Rightarrow> string \<Rightarrow> jsval io" where
  "deleteMessage_wh t w messageId =
     try_catch
       (bind (axios t \<lparr>verb = DELETE, url = webhookUrl w @ ''/messages/'' @ messageId,
                        body = Json JUndefined, headers = []\<rparr>)
          (\<lambda>response.
             bind (console Stdout
                     [LStr ''Message deleted: '', LNum (status response),
                      LStr '' - '', LStr (statusText response)])
               (\<lambda>_. return JUndefined)))
       (\<lambda>error.
          bind (console Stderr [LStr ''Error deleting message: '', LStr (message error)])
            (\<lambda>_. return JUndefined))"

definition sendSimpleEmbed :: "transport \<Rightarrow> webhook_utils \<Rightarrow> string \<Rightarrow> jsval io" where
  "sendSimpleEmbed t w content =
     try_catch
       (let simpleEmbed = JObj [(''description'', JStr content)] in
        bind (axios t \<lparr>verb = POST, url = webhookUrl w,
                        body = Json (JObj [(''embeds'', JArr [simpleEmbed])]),
                        headers = []\<rparr>)
          (\<lambda>response.
             bind (console Stdout
                     [LStr ''Simple embed sent: '', LNum (status response),
                      LStr '' - '', LStr (statusText response)])
               (\<lambda>_. return JUndefined)))
       (\<lambda>error.
          bind (console Stderr [LStr ''Error sending simple embed: '', LStr (message error)])
            (\<lambda>_. return JUndefined))"

definition deleteAllMessages :: "transport \<Rightarrow> webhook_utils \<Rightarrow> jsval io" where
  "deleteAllMessages t w =
     try_catch
       (bind (axios t \<lparr>verb = DELETE, url = webhookUrl w, body = Json JUndefined,
                        headers = []\<rparr>)
          (\<lambda>response.
             bind (console Stdout
                     [LStr ''All messages deleted: '', LNum (status response),
                      LStr '' - '', LStr (statusText response)])
               (\<lambda>_. return JUndefined)))
       (\<lambda>error.
          bind (console Stderr [LStr ''Error deleting all messages: '', LStr (message error)])
            (\<lambda>_. return JUndefined))"

definition info_wh :: "transport \<Rightarrow> webhook_utils \<Rightarrow> jsval io" where
  "info_wh t w =
     try_catch
       (bind (axios t \<lparr>verb = GET, url = webhookUrl w, body = Json JUndefined,
                        headers = []\<rparr>)
          (\<lambda>response.
             bind (console Stdout
                     [LStr ''Webhook information fetched: '', LNum (status response),
                      LStr '' - '', LStr (statusText response)])
               (\<lambda>_. return (data response))))
       (\<lambda>error.
          bind (console Stderr
                  [LStr ''Error fetching webhook information: '', LStr (message error)])
            (\<lambda>_. throw error))"

definition sendMultipleEmbeds :: "transport \<Rightarrow> webhook_utils \<Rightarrow> jsval list \<Rightarrow> jsval io" where
  "sendMultipleEmbeds t w embedArray =
     try_catch
       (bind (axios t \<lparr>verb = POST, url = webhookUrl w,
                        body = Json (JObj [(''embeds'', JArr embedArray)]),
                        headers = []\<rparr>)
          (\<lambda>response.
             bind (console Stdout
                     [LStr ''Multiple embeds sent in a single message: '',
                      LNum (status response), LStr '' - '', LStr (statusText response)])
               (\<lambda>_. return JUndefined)))
       (\<lambda>error.
          bind (console Stderr [LStr ''Error sending multiple embeds: '', LStr (message error)])
            (\<lambda>_. return JUndefined))"

subsection \<open>The operations of the webhook client, as one type\<close>

datatype webhook_op =
    SetRateLimit int
  | SetWebhookOwner string
  | SendFile string string
  | WhSendMessage string
  | UpdateWebhook string string
  | WhDeleteMessage string
  | SendSimpleEmbed string
  | DeleteAllMessages
  | WhInfo
  | SendMultipleEmbeds "jsval list"

fun webhook_call ::
  "transport \<Rightarrow> filesystem \<Rightarrow> webhook_utils \<Rightarrow> webhook_op \<Rightarrow> jsval io" where
  "webhook_call t fs w (SetRateLimit n) = setRateLimit t w n"
| "webhook_call t fs w (SetWebhookOwner userID) = setWebhookOwner t w userID"
| "webhook_call t fs w (SendFile msg filePath) = sendFile t fs w msg filePath"
| "webhook_call t fs w (WhSendMessage msg) = sendMessage_wh t w msg"
| "webhook_call t fs w (UpdateWebhook imagePath newName) =
     updateWebhook t fs w imagePath newName"
| "webhook_call t fs w (WhDeleteMessage messageId) = deleteMessage_wh t w messageId"
| "webhook_call t fs w (SendSimpleEmbed content) = sendSimpleEmbed t w content"
| "webhook_call t fs w DeleteAllMessages = deleteAllMessages t w"
| "webhook_call t fs w WhInfo = info_wh t w"
| "webhook_call t fs w (SendMultipleEmbeds embedArray) = sendMultipleEmbeds t w embedArray"

section \<open>Channel objects and the specification's reading of the DM lookup\<close>

text \<open>
  The shape of a channel object in the answer to \<^verbatim>\<open>GET /users/@me/channels\<close>, as far
  as the code reads it: the channel's \<^verbatim>\<open>id\<close>, its numeric \<^verbatim>\<open>type\<close> (1 marks a
  one-to-one DM) and the \<^verbatim>\<open>id\<close>s of its \<^verbatim>\<open>recipients\<close>, in order.
\<close>

record channel =
  ch_id :: string
  ch_type :: int
  ch_recipients :: "string list"

definition enc_user :: "string \<Rightarrow> jsval" where
  "enc_user uid = JObj [(''id'', JStr uid)]"

definition enc_channel :: "channel \<Rightarrow> jsval" where
  "enc_channel ch =
     JObj [(''id'', JStr (ch_id ch)), (''type'', JNum (ch_type ch)),
           (''recipients'', JArr (map enc_user (ch_recipients ch)))]"

text \<open>
  Reading a response body as a list of channels. A value is a channel object when its
  \<^verbatim>\<open>id\<close> is a string, its \<^verbatim>\<open>type\<close> a number and its \<^verbatim>\<open>recipients\<close> an array of
  user objects; a user object is a value whose \<^verbatim>\<open>id\<close> is a string. Other properties
  and the order of the properties do not matter.
\<close>

definition dec_user :: "jsval \<Rightarrow> string option" where
  "dec_user v = (case get_prop v ''id'' of Inr (JStr uid) \<Rightarrow> Some uid | _ \<Rightarrow> None)"

definition dec_channel :: "jsval \<Rightarrow> channel option" where
  "dec_channel v =
     (case get_prop v ''id'' of
        Inr (JStr i) \<Rightarrow>
          (case get_prop v ''type'' of
             Inr (JNum ty) \<Rightarrow>
               (case get_prop v ''recipients'' of
                  Inr (JArr rs) \<Rightarrow>
                    map_option (\<lambda>us. \<lparr>ch_id = i, ch_type = ty, ch_recipients = us\<rparr>)
                      (List.those (map dec_user rs))
                | _ \<Rightarrow> None)
           | _ \<Rightarrow> None)
      | _ \<Rightarrow> None)"

definition dec_channels :: "jsval \<Rightarrow> channel list option" where
  "dec_channels d = (case d of JArr vs \<Rightarrow> List.those (map dec_channel vs) | _ \<Rightarrow> None)"

text \<open>
  The lookup as the specification words it: the id of the first channel of type 1 that
  has \<open>userId\<close> among its recipients, \<^verbatim>\<open>null\<close> when there is none.
\<close>

definition isDmOpen_spec :: "string \<Rightarrow> channel list \<Rightarrow> jsval" where
  "isDmOpen_spec userId chs =
     (case List.find (\<lambda>ch. ch_type ch = 1 \<and> userId \<in> set (ch_recipients ch)) chs of
        None \<Rightarrow> JNull
      | Some ch \<Rightarrow> JStr (ch_id ch))"

text \<open>
  The operations that the specification says pass through \<^verbatim>\<open>makeRequest\<close>: all but
  the two DM-channel calls and the image-download helper.
\<close>

fun spec_dispatched :: "bot_op \<Rightarrow> bool" where
  "spec_dispatched (IsDmOpen userId) = False"
| "spec_dispatched (OpenOrGetDm userId) = False"
| "spec_dispatched (DownloadImage image_url) = False"
| "spec_dispatched other = True"

text \<open>The operations whose body is a single call of \<^verbatim>\<open>makeRequest\<close>.\<close>

fun forwards :: "bot_op \<Rightarrow> bool" where
  "forwards (IsDmOpen userId) = False"
| "forwards (OpenOrGetDm userId) = False"
| "forwards (Dm userId msg) = False"
| "forwards (CreateWebhook channelId webhookName webhookImage) = False"
| "forwards (DeleteWebhook webhookId) = False"
| "forwards (DownloadImage image_url) = False"
| "forwards other = True"

text \<open>The webhook operations with a handler that ends the call normally.\<close>

fun swallows :: "webhook_op \<Rightarrow> bool" where
  "swallows WhInfo = False"
| "swallows (SetWebhookOwner userID) = False"
| "swallows other = True"

text \<open>
  What the \<^verbatim>\<open>catch\<close> block of each operation prints for the error it caught;
  \<^verbatim>\<open>setWebhookOwner\<close> has no \<^verbatim>\<open>catch\<close> block.
\<close>

fun handler_prints :: "webhook_op \<Rightarrow> js_error \<Rightarrow> event list" where
  "handler_prints (SetRateLimit n) error = [Console Stdout [LStr (message error)]]"
| "handler_prints (SetWebhookOwner userID) error = []"
| "handler_prints (SendFile msg filePath) error =
     [Console Stderr [LStr ''Error sending file to Discord: '', LStr (message error)]]"
| "handler_prints (WhSendMessage msg) error =
     [Console Stderr [LStr ''Error sending message. Status: '', LStr (message error)]]"
| "handler_prints (UpdateWebhook imagePath newName) error =
     [Console Stderr [LStr ''Error updating webhook:'', LErr error]]"
| "handler_prints (WhDeleteMessage messageId) error =
     [Console Stderr [LStr ''Error deleting message: '', LStr (message error)]]"
| "handler_prints (SendSimpleEmbed content) error =
     [Console Stderr [LStr ''Error sending simple embed: '', LStr (message error)]]"
| "handler_prints DeleteAllMessages error =
     [Console Stderr [LStr ''Error deleting all messages: '', LStr (message error)]]"
| "handler_prints WhInfo error =
     [Console Stderr [LStr ''Error fetching webhook information: '', LStr (message error)]]"
| "handler_prints (SendMultipleEmbeds embedArray) error =
     [Console Stderr [LStr ''Error sending multiple embeds: '', LStr (message error)]]"

text \<open>The files an operation reads exist.\<close>

fun files_exist :: "filesystem \<Rightarrow> webhook_op \<Rightarrow> bool" where
  "files_exist fs (SendFile msg filePath) = (fs filePath \<noteq> None)"
| "files_exist fs (UpdateWebhook imagePath newName) = (fs imagePath \<noteq> None)"
| "files_exist fs other = True"

section \<open>Mocked transports and sample data\<close>

definition client_T :: client where
  "client_T = \<lparr>token = ''T'', logging = True\<rparr>"

definition ok_response :: "jsval \<Rightarrow> http_response" where
  "ok_response d = \<lparr>status = 200, statusText = ''OK'', data = d\<rparr>"

definition user_42 :: jsval where
  "user_42 = JObj [(''id'', JStr ''42''), (''username'', JStr ''x'')]"

definition mock_200 :: transport where
  "mock_200 = (\<lambda>history q. Inr (ok_response user_42))"

definition unknown_user :: jsval where
  "unknown_user = JObj [(''message'', JStr ''Unknown User''), (''code'', JNum 10013)]"

definition err_404 :: js_error where
  "err_404 =
     \<lparr>kind = AxiosError, message = ''Request failed with status code 404'',
      response = Some \<lparr>status = 404, statusText = ''Not Found'', data = unknown_user\<rparr>\<rparr>"

definition mock_404 :: transport where
  "mock_404 = (\<lambda>history q. Inl err_404)"

text \<open>A server that answers its first request and rejects every later one with a 404.\<close>

definition mock_first_only :: transport where
  "mock_first_only =
     (\<lambda>history q. if history = [] then Inr (ok_response JNull) else Inl err_404)"

text \<open>A server that answers every \<^verbatim>\<open>GET\<close> and rejects every other request with a 404.\<close>

definition mock_get_only :: transport where
  "mock_get_only =
     (\<lambda>history q. if verb q = GET then Inr (ok_response JNull) else Inl err_404)"

text \<open>
  A server that answers the channel list to a \<^verbatim>\<open>GET\<close> and a fresh channel
  \<^verbatim>\<open>{id: "900"}\<close> to every other request.
\<close>

definition mock_dm :: "channel list \<Rightarrow> transport" where
  "mock_dm chs =
     (\<lambda>history q.
        if verb q = GET then Inr (ok_response (JArr (map enc_channel chs)))
        else Inr (ok_response (JObj [(''id'', JStr ''900'')])))"

definition ch_group :: channel where
  "ch_group = \<lparr>ch_id = ''100'', ch_type = 3, ch_recipients = [''7'', ''8'']\<rparr>"

definition ch_dm7 :: channel where
  "ch_dm7 = \<lparr>ch_id = ''107'', ch_type = 1, ch_recipients = [''7'']\<rparr>"

definition ch_dm8 :: channel where
  "ch_dm8 = \<lparr>ch_id = ''108'', ch_type = 1, ch_recipients = [''8'']\<rparr>"

definition ch_two :: channel where
  "ch_two = \<lparr>ch_id = ''109'', ch_type = 1, ch_recipients = [''7'', ''8'']\<rparr>"

definition ch_nobody :: channel where
  "ch_nobody = \<lparr>ch_id = ''110'', ch_type = 1, ch_recipients = []\<rparr>"

definition ch_noid :: channel where
  "ch_noid = \<lparr>ch_id = [], ch_type = 1, ch_recipients = [''7'']\<rparr>"

definition hook_w :: webhook_utils where
  "hook_w = \<lparr>webhookUrl = ''https://discord.com/api/webhooks/1/abc''\<rparr>"

definition no_files :: filesystem where
  "no_files = (\<lambda>path. None)"

definition one_file :: filesystem where
  "one_file = (\<lambda>path. if path = ''/tmp/a.txt'' then Some ''hello'' else None)"

section \<open>Evaluation rules\<close>

lemma return_apply: "return v tr = (Inr v, tr)"
  by (simp add: return_def)

lemma throw_apply: "throw e tr = (Inl e, tr)"
  by (simp add: throw_def)

lemma lift_apply: "lift r tr = (r, tr)"
  by (simp add: lift_def)

lemma console_apply: "console s args tr = (Inr (), tr @ [Console s args])"
  by (simp add: console_def)

lemma axios_apply: "axios t q tr = (t (sent tr) q, tr @ [Sent q])"
  by (simp add: axios_def)

lemma detached_apply: "detached m tr = (Inr (), snd (m tr))"
  by (simp add: detached_def)

lemma bind_apply:
  "bind m f tr = (case m tr of (Inl e, tr') \<Rightarrow> (Inl e, tr') | (Inr v, tr') \<Rightarrow> f v tr')"
  by (simp add: bind_def)

lemma try_catch_apply:
  "try_catch m h tr = (case m tr of (Inl e, tr') \<Rightarrow> h e tr' | (Inr v, tr') \<Rightarrow> (Inr v, tr'))"
  by (simp add: try_catch_def)

lemmas io_simps =
  return_apply throw_apply lift_apply console_apply axios_apply detached_apply
  bind_apply try_catch_apply

lemma sent_append: "sent (xs @ ys) = sent xs @ sent ys"
  by (induction xs rule: sent.induct) simp_all

lemma issued_eq: "sent (snd (m tr)) = sent tr @ qs \<Longrightarrow> issued m tr = qs"
  by (simp add: issued_def)

subsection \<open>The dispatcher\<close>

lemma makeRequest_apply:
  "makeRequest t c endpoint m d tr =
     (case t (sent tr) (api_request c endpoint m d) of
        Inl e \<Rightarrow>
          (Inl e, tr @ [Sent (api_request c endpoint m d),
                        Console Stderr [LStr ''Discord API Error:'', error_detail e]])
      | Inr r \<Rightarrow>
          (Inr (data r),
           tr @ Sent (api_request c endpoint m d) #
             (if logging c
              then [Console Stdout [LStr ''response sent to endpoint: '', LStr endpoint]]
              else [])))"
  by (simp add: makeRequest_def io_simps split: sum.splits)

lemma sent_makeRequest:
  "sent (snd (makeRequest t c endpoint m d tr)) = sent tr @ [api_request c endpoint m d]"
  by (simp add: makeRequest_apply sent_append split: sum.splits)

lemmas forwarder_defs =
  sendMessage_def getUser_def getGuild_def createChannel_def kickMember_def
  getChannelMessages_def addReaction_def removeReaction_def getMemberRoles_def
  getGuildChannels_def editMessage_def getMembers_def createEmoji_def getEmojis_def
  getRoles_def deleteMessage_def editRole_def getRoleUsers_def editUsername_def
  editAvatar_def editStatus_def getBotGateway_def info_def getGuilds_def leaveGuild_def
  getConnections_def

lemma forwards_makeRequest:
  "forwards op \<Longrightarrow> \<exists>endpoint m d. bot_call t c op = makeRequest t c endpoint m d"
  by (cases op) (auto simp: forwarder_defs)

subsection \<open>The DM helpers\<close>

lemma isDmOpen_apply:
  "isDmOpen t c userId tr =
     (case t (sent tr) (dm_list_request c) of
        Inl e \<Rightarrow>
          (Inl e, tr @ [Sent (dm_list_request c),
                        Console Stderr [LStr ''Error checking DM:'', error_detail e]])
      | Inr r \<Rightarrow>
          (case data_find (data r) (is_dm_with userId) of
             Inl e \<Rightarrow>
               (Inl e, tr @ [Sent (dm_list_request c),
                             Console Stderr [LStr ''Error checking DM:'', error_detail e]])
           | Inr dmChannel \<Rightarrow>
               if truthy dmChannel
               then (case get_prop dmChannel ''id'' of
                       Inl e \<Rightarrow>
                         (Inl e, tr @ [Sent (dm_list_request c),
                             Console Stderr [LStr ''Error checking DM:'', error_detail e]])
                     | Inr i \<Rightarrow> (Inr i, tr @ [Sent (dm_list_request c)]))
               else (Inr JNull, tr @ [Sent (dm_list_request c)])))"
  by (simp add: isDmOpen_def io_simps split: sum.splits)

lemma sent_isDmOpen: "sent (snd (isDmOpen t c userId tr)) = sent tr @ [dm_list_request c]"
  by (simp add: isDmOpen_apply sent_append split: sum.splits)

lemma openOrGetDm_apply:
  "openOrGetDm t c userId tr =
     (case isDmOpen t c userId tr of
        (Inl e, tr') \<Rightarrow>
          (Inl e, tr' @ [Console Stderr [LStr ''Error opening DM:'', error_detail e]])
      | (Inr existing, tr') \<Rightarrow>
          if truthy existing then (Inr existing, tr')
          else (case t (sent tr') (dm_create_request c userId) of
                  Inl e \<Rightarrow>
                    (Inl e, tr' @ [Sent (dm_create_request c userId),
                       Console Stderr [LStr ''Error opening DM:'', error_detail e]])
                | Inr r \<Rightarrow>
                    (case get_prop (data r) ''id'' of
                       Inl e \<Rightarrow>
                         (Inl e, tr' @ [Sent (dm_create_request c userId),
                            Console Stderr [LStr ''Error opening DM:'', error_detail e]])
                     | Inr i \<Rightarrow> (Inr i, tr' @ [Sent (dm_create_request c userId)]))))"
  by (simp add: openOrGetDm_def io_simps split: sum.splits prod.splits)




subsection \<open>Channel objects\<close>

lemma dec_user_id: "dec_user v = Some uid \<Longrightarrow> get_prop v ''id'' = Inr (JStr uid)"
  by (auto simp: dec_user_def split: sum.splits jsval.splits)

lemma dec_channel_props:
  assumes "dec_channel v = Some ch"
  shows "get_prop v ''id'' = Inr (JStr (ch_id ch))"
    and "get_prop v ''type'' = Inr (JNum (ch_type ch))"
    and "\<exists>rs. get_prop v ''recipients'' = Inr (JArr rs)
           \<and> List.those (map dec_user rs) = Some (ch_recipients ch)"
    and "truthy v"
  using assms
  by (cases v; auto simp: dec_channel_def split: sum.splits jsval.splits option.splits)+

lemma those_map_Nil: "List.those (map f rs) = Some [] \<Longrightarrow> rs = []"
  by (cases rs) (auto split: option.splits)

lemma those_map_Cons:
  "List.those (map f rs) = Some (u # us) \<Longrightarrow> \<exists>r rest. rs = r # rest \<and> f r = Some u"
  by (cases rs) (auto split: option.splits)

text \<open>The callback of \<^verbatim>\<open>isDmOpen\<close> on a channel object.\<close>

lemma is_dm_with_dec:
  assumes "dec_channel v = Some ch"
  shows "is_dm_with userId v =
     (if ch_type ch \<noteq> 1 then Inr False
      else case ch_recipients ch of
             [] \<Rightarrow> Inl (type_error (cannot_read ''undefined'' ''id''))
           | r # rs \<Rightarrow> Inr (r = userId))"
proof -
  obtain rs where rs: "get_prop v ''recipients'' = Inr (JArr rs)"
      "List.those (map dec_user rs) = Some (ch_recipients ch)"
    using dec_channel_props(3) [OF assms] by blast
  show ?thesis
  proof (cases "ch_recipients ch")
    case Nil
    with rs have "rs = []" by (simp add: those_map_Nil)
    with Nil rs show ?thesis
      by (simp add: is_dm_with_def dec_channel_props(2) [OF assms])
  next
    case (Cons u us)
    with rs obtain r rest where "rs = r # rest" "dec_user r = Some u"
      using those_map_Cons [of dec_user rs u us] by auto
    with Cons rs show ?thesis
      by (simp add: is_dm_with_def dec_channel_props(2) [OF assms] dec_user_id)
  qed
qed

text \<open>
  What \<^verbatim>\<open>isDmOpen\<close> makes of a list of channel objects in which every channel of
  type 1 has a recipient.
\<close>

lemma lookup_dec:
  "List.those (map dec_channel vs) = Some chs \<Longrightarrow>
   \<forall>ch\<in>set chs. ch_type ch = 1 \<longrightarrow> ch_recipients ch \<noteq> [] \<Longrightarrow>
   (case find_js (is_dm_with userId) vs of
      Inl e \<Rightarrow> Inl e
    | Inr d \<Rightarrow> if truthy d then get_prop d ''id'' else Inr JNull) =
     Inr (case List.find (\<lambda>ch. ch_type ch = 1 \<and> take 1 (ch_recipients ch) = [userId]) chs of
            None \<Rightarrow> JNull
          | Some ch \<Rightarrow> JStr (ch_id ch))"
proof (induction vs arbitrary: chs)
  case Nil
  then show ?case by simp
next
  case (Cons v vs)
  then obtain ch rest where v: "dec_channel v = Some ch"
    and rest: "List.those (map dec_channel vs) = Some rest" and chs: "chs = ch # rest"
    by (auto split: option.splits)
  from Cons.prems(2) chs have ok: "ch_type ch = 1 \<longrightarrow> ch_recipients ch \<noteq> []"
    and "\<forall>ch\<in>set rest. ch_type ch = 1 \<longrightarrow> ch_recipients ch \<noteq> []" by auto
  with Cons.IH [OF rest] have IH:
    "(case find_js (is_dm_with userId) vs of
        Inl e \<Rightarrow> Inl e
      | Inr d \<Rightarrow> if truthy d then get_prop d ''id'' else Inr JNull) =
     Inr (case List.find (\<lambda>ch. ch_type ch = 1 \<and> take 1 (ch_recipients ch) = [userId]) rest of
            None \<Rightarrow> JNull
          | Some ch \<Rightarrow> JStr (ch_id ch))" by simp
  show ?case
    using ok IH
    by (cases "ch_recipients ch")
      (simp_all add: chs is_dm_with_dec [OF v] dec_channel_props(1,4) [OF v])
qed

text \<open>
  A channel of type 1 without recipients makes the scan throw, for a user that is
  nobody's first recipient.
\<close>

lemma lookup_dec_unsafe:
  "List.those (map dec_channel vs) = Some chs \<Longrightarrow>
   \<exists>ch\<in>set chs. ch_type ch = 1 \<and> ch_recipients ch = [] \<Longrightarrow>
   \<forall>ch\<in>set chs. take 1 (ch_recipients ch) \<noteq> [userId] \<Longrightarrow>
   find_js (is_dm_with userId) vs = Inl (type_error (cannot_read ''undefined'' ''id''))"
proof (induction vs arbitrary: chs)
  case Nil
  then show ?case by simp
next
  case (Cons v vs)
  then obtain ch rest where v: "dec_channel v = Some ch"
    and rest: "List.those (map dec_channel vs) = Some rest" and chs: "chs = ch # rest"
    by (auto split: option.splits)
  show ?case
  proof (cases "ch_type ch = 1 \<and> ch_recipients ch = []")
    case True
    then show ?thesis by (simp add: is_dm_with_dec [OF v])
  next
    case False
    with Cons.prems chs have "\<exists>ch\<in>set rest. ch_type ch = 1 \<and> ch_recipients ch = []"
      and "\<forall>ch\<in>set rest. take 1 (ch_recipients ch) \<noteq> [userId]"
      and "take 1 (ch_recipients ch) \<noteq> [userId]" by auto
    with Cons.IH [OF rest] False show ?thesis
      by (cases "ch_recipients ch") (auto simp: is_dm_with_dec [OF v])
  qed
qed

lemma dec_channels_JArr:
  "dec_channels d = Some chs \<Longrightarrow>
   \<exists>vs. d = JArr vs \<and> List.those (map dec_channel vs) = Some chs"
  by (auto simp: dec_channels_def split: jsval.splits)

lemma those_enc_users: "List.those (map (dec_user \<circ> enc_user) us) = Some us"
  by (induction us) (simp_all add: dec_user_def enc_user_def)

lemma dec_enc_channel: "dec_channel (enc_channel ch) = Some ch"
  by (simp add: dec_channel_def enc_channel_def those_enc_users)

lemma dec_channels_enc: "dec_channels (JArr (map enc_channel chs)) = Some chs"
  by (induction chs) (simp_all add: dec_channels_def dec_enc_channel)

lemma is_dm_with_enc:
  "is_dm_with userId (enc_channel ch) =
     (if ch_type ch \<noteq> 1 then Inr False
      else case ch_recipients ch of
             [] \<Rightarrow> Inl (type_error (cannot_read ''undefined'' ''id''))
           | r # rs \<Rightarrow> Inr (r = userId))"
  by (rule is_dm_with_dec [OF dec_enc_channel])

lemma truthy_enc_channel: "truthy (enc_channel ch)"
  by (simp add: enc_channel_def)

lemma id_enc_channel: "get_prop (enc_channel ch) ''id'' = Inr (JStr (ch_id ch))"
  by (simp add: enc_channel_def)

lemma fresh_string: "\<exists>u::string. u \<notin> set xs"
proof -
  have "infinite (UNIV :: string set)" by (rule infinite_UNIV_listI)
  then show ?thesis using ex_new_if_finite [of "set xs"] by simp
qed

subsection \<open>The webhook client\<close>

lemmas swallower_defs =
  setRateLimit_def sendFile_def sendMessage_wh_def updateWebhook_def deleteMessage_wh_def
  sendSimpleEmbed_def deleteAllMessages_def sendMultipleEmbeds_def

lemma swallows_resolves:
  "swallows op \<Longrightarrow> files_exist fs op \<Longrightarrow> fst (webhook_call t fs w op tr) = Inr JUndefined"
  by (cases op)
    (auto simp: swallower_defs io_simps readFileSync_def statSync_size_def Let_def
      split: sum.splits option.splits)

lemma single_split: "([a] = qs @ q # rest) = (qs = [] \<and> q = a \<and> rest = [])"
  by (cases qs) auto

lemma double_split:
  "([a, b] = qs @ q # rest) =
     ((qs = [] \<and> q = a \<and> rest = [b]) \<or> (qs = [a] \<and> q = b \<and> rest = []))"
  by (cases qs; cases "tl qs") auto

lemma swallows_issues:
  "swallows op \<Longrightarrow> files_exist fs op \<Longrightarrow> issued (webhook_call t fs w op) tr \<noteq> []"
  by (cases op)
    (auto simp: swallower_defs io_simps readFileSync_def statSync_size_def Let_def issued_def
      sent_append split: sum.splits option.splits)

text \<open>
  Whichever request of the operation the transport rejects, it is the last one the
  operation issues, and the handler's line follows it.
\<close>

lemma swallows_prints_request:
  "swallows op \<Longrightarrow> files_exist fs op \<Longrightarrow>
   issued (webhook_call t fs w op) tr = qs @ q # rest \<Longrightarrow> t (sent tr @ qs) q = Inl e \<Longrightarrow>
   rest = [] \<and> (\<exists>pre. snd (webhook_call t fs w op tr) = pre @ Sent q # handler_prints op e)"
  by (cases op)
    (auto simp: swallower_defs io_simps readFileSync_def statSync_size_def Let_def issued_def
      sent_append single_split double_split split: sum.splits option.splits)

lemma info_wh_apply:
  "info_wh t w tr =
     (case t (sent tr) \<lparr>verb = GET, url = webhookUrl w, body = Json JUndefined, headers = []\<rparr> of
        Inl e \<Rightarrow>
          (Inl e,
           tr @ [Sent \<lparr>verb = GET, url = webhookUrl w, body = Json JUndefined, headers = []\<rparr>,
                 Console Stderr [LStr ''Error fetching webhook information: '',
                                 LStr (message e)]])
      | Inr r \<Rightarrow>
          (Inr (data r),
           tr @ [Sent \<lparr>verb = GET, url = webhookUrl w, body = Json JUndefined, headers = []\<rparr>,
                 Console Stdout [LStr ''Webhook information fetched: '', LNum (status r),
                                 LStr '' - '', LStr (statusText r)]]))"
  by (simp add: info_wh_def io_simps split: sum.splits)

subsection \<open>Runs against the mocked servers\<close>

lemma updateWebhook_mock_first_only:
  "updateWebhook mock_first_only one_file hook_w ''/tmp/a.txt'' ''bot'' [] =
     (Inr JUndefined,
      [Sent \<lparr>verb = PATCH, url = ''https://discord.com/api/webhooks/1/abc'',
             body = Json (JObj [(''avatar'', JStr ''data:image/jpeg;base64,aGVsbG8='')]),
             headers = []\<rparr>,
       Sent \<lparr>verb = PATCH, url = ''https://discord.com/api/webhooks/1/abc'',
             body = Json (JObj [(''name'', JStr ''bot'')]), headers = []\<rparr>,
       Console Stderr [LStr ''Error updating webhook:'', LErr err_404]])"
  by (simp add: updateWebhook_def io_simps readFileSync_def one_file_def mock_first_only_def
      hook_w_def base64_def b64_char_def)

lemma sendMessage_wh_mock_get_only:
  "sendMessage_wh mock_get_only hook_w ''hi'' [] =
     (Inr JUndefined,
      [Sent \<lparr>verb = POST, url = ''https://discord.com/api/webhooks/1/abc'',
             body = Json (JObj [(''content'', JStr ''hi'')]), headers = []\<rparr>,
       Console Stderr [LStr ''Error sending message. Status: '',
                       LStr ''Request failed with status code 404'']])"
  by (simp add: sendMessage_wh_def io_simps mock_get_only_def hook_w_def err_404_def)




section \<open>The claims\<close>

subsection \<open>C1: the end-to-end scenario of \<^verbatim>\<open>getUser\<close>\<close>

text \<open>
  Claim C1. \<^verbatim>\<open>getUser(userId)\<close> on a client with token \<open>token c\<close> issues exactly one
  request: a \<^verbatim>\<open>GET\<close> of \<^verbatim>\<open>/users/<userId>\<close> under the v10 base URL with the header
  \<^verbatim>\<open>Authorization: Bot <token>\<close>. When the transport answers, the body of the answer
  is the result, unchanged. When the transport rejects, the call rejects with the same
  error after one line on the error stream; that line shows the server's payload
  whenever the error carries a response with a (truthy) body.
\<close>

theorem getUser_dispatch:
  fixes t :: transport
  shows "issued (getUser t c userId) tr = [api_request c (''/users/'' @ userId) GET JUndefined]
    \<and> api_request c (''/users/'' @ userId) GET JUndefined =
        \<lparr>verb = GET, url = ''https://discord.com/api/v10/users/'' @ userId,
         body = Json JUndefined,
         headers = [(''Authorization'', ''Bot '' @ token c),
                    (''Content-Type'', ''application/json'')]\<rparr>
    \<and> (\<forall>r. t (sent tr) (api_request c (''/users/'' @ userId) GET JUndefined) = Inr r \<longrightarrow>
          getUser t c userId tr =
            (Inr (data r),
             tr @ Sent (api_request c (''/users/'' @ userId) GET JUndefined) #
               (if logging c
                then [Console Stdout [LStr ''response sent to endpoint: '',
                                       LStr (''/users/'' @ userId)]]
                else [])))
    \<and> (\<forall>e. t (sent tr) (api_request c (''/users/'' @ userId) GET JUndefined) = Inl e \<longrightarrow>
          getUser t c userId tr =
            (Inl e, tr @ [Sent (api_request c (''/users/'' @ userId) GET JUndefined),
                          Console Stderr [LStr ''Discord API Error:'', error_detail e]])
          \<and> (\<forall>r. response e = Some r \<and> truthy (data r) \<longrightarrow> error_detail e = LVal (data r)))"
proof -
  have "sent (snd (getUser t c userId tr)) =
      sent tr @ [api_request c (''/users/'' @ userId) GET JUndefined]"
    by (simp add: getUser_def sent_makeRequest)
  then have "issued (getUser t c userId) tr =
      [api_request c (''/users/'' @ userId) GET JUndefined]"
    by (rule issued_eq)
  then show ?thesis
    by (simp add: getUser_def makeRequest_apply api_request_def auth_header_def
        error_detail_def)
qed

text \<open>
  The scenario of the specification: token \<^verbatim>\<open>"T"\<close>, \<^verbatim>\<open>getUser("42")\<close>, a mocked
  200 with the body \<^verbatim>\<open>{id: "42", username: "x"}\<close> and a mocked 404.
\<close>

theorem getUser_dispatch_witness:
  "getUser mock_200 client_T ''42'' [] =
     (Inr (JObj [(''id'', JStr ''42''), (''username'', JStr ''x'')]),
      [Sent \<lparr>verb = GET, url = ''https://discord.com/api/v10/users/42'',
             body = Json JUndefined,
             headers = [(''Authorization'', ''Bot T''),
                        (''Content-Type'', ''application/json'')]\<rparr>,
       Console Stdout [LStr ''response sent to endpoint: '', LStr ''/users/42'']])
   \<and> getUser mock_404 client_T ''42'' [] =
     (Inl err_404,
      [Sent \<lparr>verb = GET, url = ''https://discord.com/api/v10/users/42'',
             body = Json JUndefined,
             headers = [(''Authorization'', ''Bot T''),
                        (''Content-Type'', ''application/json'')]\<rparr>,
       Console Stderr [LStr ''Discord API Error:'', LVal unknown_user]])
   \<and> issued (getUser mock_404 client_T ''42'') [] =
     [\<lparr>verb = GET, url = ''https://discord.com/api/v10/users/42'',
             body = Json JUndefined,
             headers = [(''Authorization'', ''Bot T''),
                        (''Content-Type'', ''application/json'')]\<rparr>]"
  using getUser_dispatch [where t = mock_200 and c = client_T and userId = "''42''" and tr = "[]"]
    getUser_dispatch [where t = mock_404 and c = client_T and userId = "''42''" and tr = "[]"]
  by (simp add: mock_200_def mock_404_def client_T_def ok_response_def user_42_def
      err_404_def error_detail_def unknown_user_def)

subsection \<open>C2: what \<^verbatim>\<open>isDmOpen\<close> returns\<close>

text \<open>
  Claim C2, as the specification words it, fails on the code in two ways. A type-1
  channel that lists the user as its second recipient is not found: the code compares
  \<^verbatim>\<open>recipients[0].id\<close> only. A type-1 channel with no recipient makes the call
  reject with a \<^verbatim>\<open>TypeError\<close> where the specification's reading gives \<^verbatim>\<open>null\<close>.
\<close>

theorem isDmOpen_among_recipients_counterexample:
  "fst (isDmOpen (mock_dm [ch_two]) client_T ''8'' []) = Inr JNull
   \<and> isDmOpen_spec ''8'' [ch_two] = JStr ''109''
   \<and> fst (isDmOpen (mock_dm [ch_nobody]) client_T ''8'' [])
       = Inl (type_error (cannot_read ''undefined'' ''id''))
   \<and> isDmOpen_spec ''8'' [ch_nobody] = JNull"
  by (simp add: isDmOpen_apply mock_dm_def dm_list_request_def ok_response_def data_find_def
      is_dm_with_enc ch_two_def ch_nobody_def isDmOpen_spec_def)

text \<open>
  Claim C2, amended. When the fetched list consists of channel objects and every
  channel of type 1 in it has at least one recipient, \<^verbatim>\<open>isDmOpen(userId)\<close> resolves
  to \<^verbatim>\<open>null\<close> when no channel has both type 1 and \<open>userId\<close> as its first recipient,
  and otherwise to the id of the first such channel.
\<close>

theorem isDmOpen_first_recipient:
  assumes "t (sent tr) (dm_list_request c) = Inr r"
    and "dec_channels (data r) = Some chs"
    and "\<forall>ch\<in>set chs. ch_type ch = 1 \<longrightarrow> ch_recipients ch \<noteq> []"
  shows "fst (isDmOpen t c userId tr) =
     Inr (case List.find (\<lambda>ch. ch_type ch = 1 \<and> take 1 (ch_recipients ch) = [userId]) chs of
            None \<Rightarrow> JNull
          | Some ch \<Rightarrow> JStr (ch_id ch))"
proof -
  from assms(2) obtain vs
    where vs: "data r = JArr vs" "List.those (map dec_channel vs) = Some chs"
    using dec_channels_JArr by blast
  show ?thesis
    using lookup_dec [OF vs(2) assms(3), of userId] assms(1) vs(1)
    by (auto simp: isDmOpen_apply data_find_def split: sum.splits if_splits)
qed

text \<open>
  A list with a group channel and two DMs: the DM with user 8 is found, a user
  without a DM gives \<^verbatim>\<open>null\<close>.
\<close>

theorem isDmOpen_first_recipient_witness:
  "fst (isDmOpen (mock_dm [ch_group, ch_dm7, ch_dm8]) client_T ''8'' []) = Inr (JStr ''108'')
   \<and> fst (isDmOpen (mock_dm [ch_group, ch_dm7, ch_dm8]) client_T ''9'' []) = Inr JNull"
  using isDmOpen_first_recipient [where t = "mock_dm [ch_group, ch_dm7, ch_dm8]" and tr = "[]"
      and c = client_T and r = "ok_response (JArr (map enc_channel [ch_group, ch_dm7, ch_dm8]))"
      and chs = "[ch_group, ch_dm7, ch_dm8]" and userId = "''8''"]
    isDmOpen_first_recipient [where t = "mock_dm [ch_group, ch_dm7, ch_dm8]" and tr = "[]"
      and c = client_T and r = "ok_response (JArr (map enc_channel [ch_group, ch_dm7, ch_dm8]))"
      and chs = "[ch_group, ch_dm7, ch_dm8]" and userId = "''9''"]
    dec_channels_enc [of "[ch_group, ch_dm7, ch_dm8]"]
  by (simp add: mock_dm_def dm_list_request_def ok_response_def ch_group_def ch_dm7_def
      ch_dm8_def)

subsection \<open>C3: \<^verbatim>\<open>openOrGetDm\<close> looks up, then creates\<close>

text \<open>
  Claim C3, as stated, fails on a channel whose id is the empty string: \<^verbatim>\<open>isDmOpen\<close>
  returns \<^verbatim>\<open>""\<close>, which is not \<^verbatim>\<open>null\<close>, but \<^verbatim>\<open>if (existingChannelId)\<close> tests
  truthiness, so \<^verbatim>\<open>openOrGetDm\<close> goes on to the creation \<^verbatim>\<open>POST\<close> and returns the new
  channel's id.
\<close>

theorem openOrGetDm_empty_id_counterexample:
  "fst (isDmOpen (mock_dm [ch_noid]) client_T ''7'' []) = Inr (JStr [])
   \<and> JStr [] \<noteq> JNull
   \<and> openOrGetDm (mock_dm [ch_noid]) client_T ''7'' [] =
       (Inr (JStr ''900''),
        [Sent (dm_list_request client_T), Sent (dm_create_request client_T ''7'')])
   \<and> verb (dm_create_request client_T ''7'') = POST"
  by (simp add: openOrGetDm_apply isDmOpen_apply mock_dm_def dm_list_request_def
      dm_create_request_def ok_response_def data_find_def is_dm_with_enc ch_noid_def
      id_enc_channel truthy_enc_channel)

text \<open>
  Claim C3, amended. When \<^verbatim>\<open>isDmOpen(userId)\<close> has returned a truthy channel id
  (neither \<^verbatim>\<open>null\<close> nor the empty string), \<^verbatim>\<open>openOrGetDm(userId)\<close> returns that id
  and issues nothing but the \<^verbatim>\<open>GET\<close> of the lookup. When \<^verbatim>\<open>isDmOpen\<close> has returned
  \<^verbatim>\<open>null\<close> (or another falsy value), it issues one \<^verbatim>\<open>POST\<close> with the body
  \<^verbatim>\<open>{recipient_id: userId}\<close> after the lookup and returns the \<^verbatim>\<open>id\<close> of the answer.
  When \<^verbatim>\<open>isDmOpen\<close> has rejected, it rejects with the same error and issues no
  \<^verbatim>\<open>POST\<close>.
\<close>

theorem openOrGetDm_lookup_or_create:
  assumes "isDmOpen t c userId tr = (found, tr')"
  shows "(\<forall>cid. found = Inr cid \<and> truthy cid \<longrightarrow>
            openOrGetDm t c userId tr = (Inr cid, tr')
            \<and> issued (openOrGetDm t c userId) tr = [dm_list_request c])
     \<and> (\<forall>v. found = Inr v \<and> \<not> truthy v \<longrightarrow>
            issued (openOrGetDm t c userId) tr =
              [dm_list_request c, dm_create_request c userId]
            \<and> (\<forall>r. t (sent tr') (dm_create_request c userId) = Inr r \<longrightarrow>
                  fst (openOrGetDm t c userId tr) = get_prop (data r) ''id''))
     \<and> (\<forall>e. found = Inl e \<longrightarrow>
            fst (openOrGetDm t c userId tr) = Inl e
            \<and> issued (openOrGetDm t c userId) tr = [dm_list_request c])
     \<and> verb (dm_list_request c) = GET
     \<and> dm_create_request c userId =
          \<lparr>verb = POST, url = ''https://discord.com/api/v9/users/@me/channels'',
           body = Json (JObj [(''recipient_id'', JStr userId)]),
           headers = [(''Authorization'', ''Bot '' @ token c)]\<rparr>"
proof -
  have tr': "sent tr' = sent tr @ [dm_list_request c]"
    using sent_isDmOpen [of t c userId tr] assms by simp
  have a: "issued (openOrGetDm t c userId) tr = [dm_list_request c]"
    if "found = Inr cid" "truthy cid" for cid
    using that assms tr' by (intro issued_eq) (simp add: openOrGetDm_apply)
  have b: "issued (openOrGetDm t c userId) tr = [dm_list_request c, dm_create_request c userId]"
    if "found = Inr v" "\<not> truthy v" for v
    using that assms tr'
    by (intro issued_eq) (simp add: openOrGetDm_apply sent_append split: sum.splits)
  have d: "issued (openOrGetDm t c userId) tr = [dm_list_request c]"
    if "found = Inl e" for e
    using that assms tr' by (intro issued_eq) (simp add: openOrGetDm_apply sent_append)
  show ?thesis
    using assms a b d
    by (auto simp: openOrGetDm_apply dm_list_request_def dm_create_request_def
        dm_channels_url_def auth_header_def split: sum.splits)
qed

text \<open>
  With a DM to user 7 in the list: for user 7 the lookup alone, for user 8 the lookup
  and the creation.
\<close>

theorem openOrGetDm_lookup_or_create_witness:
  "openOrGetDm (mock_dm [ch_group, ch_dm7]) client_T ''7'' [] =
     (Inr (JStr ''107''), [Sent (dm_list_request client_T)])
   \<and> issued (openOrGetDm (mock_dm [ch_group, ch_dm7]) client_T ''7'') [] =
       [dm_list_request client_T]
   \<and> issued (openOrGetDm (mock_dm [ch_group, ch_dm7]) client_T ''8'') [] =
       [dm_list_request client_T, dm_create_request client_T ''8'']
   \<and> fst (openOrGetDm (mock_dm [ch_group, ch_dm7]) client_T ''8'' []) = Inr (JStr ''900'')"
  using openOrGetDm_lookup_or_create [where t = "mock_dm [ch_group, ch_dm7]" and c = client_T
      and userId = "''7''" and tr = "[]" and found = "Inr (JStr ''107'')"
      and tr' = "[Sent (dm_list_request client_T)]"]
    openOrGetDm_lookup_or_create [where t = "mock_dm [ch_group, ch_dm7]" and c = client_T
      and userId = "''8''" and tr = "[]" and found = "Inr JNull"
      and tr' = "[Sent (dm_list_request client_T)]"]
  by (simp add: isDmOpen_apply mock_dm_def dm_list_request_def dm_create_request_def
      ok_response_def data_find_def is_dm_with_enc ch_group_def ch_dm7_def id_enc_channel
      truthy_enc_channel)

subsection \<open>C4: which operations pass through \<^verbatim>\<open>makeRequest\<close>\<close>

text \<open>
  Claim C4, as stated, fails for \<^verbatim>\<open>createWebhook\<close>: it is neither one of the two
  DM-channel calls nor the image-download helper, yet it calls the transport directly
  (v9 URL, no
  \<^verbatim>\<open>Content-Type\<close> header) and on a 404 it prints the payload and resolves to
  \<^verbatim>\<open>null\<close> instead of rethrowing.
\<close>

theorem createWebhook_swallows_counterexample:
  "spec_dispatched (CreateWebhook ''5'' ''hook'' ''img'')
   \<and> bot_call mock_404 client_T (CreateWebhook ''5'' ''hook'' ''img'') [] =
     (Inr JNull,
      [Sent \<lparr>verb = POST, url = ''https://discord.com/api/v9/channels/5/webhooks'',
             body = Json (JObj [(''name'', JStr ''hook''), (''avatar'', JStr ''img'')]),
             headers = [(''Authorization'', ''Bot T'')]\<rparr>,
       Console Stderr [LStr ''Error creating webhook:'', LVal unknown_user]])"
  by (simp add: createWebhook_def io_simps mock_404_def err_404_def response_data_def
      client_T_def auth_header_def)

text \<open>
  Claim C4, amended. Every operation of the bot client other than \<^verbatim>\<open>isDmOpen\<close>,
  \<^verbatim>\<open>openOrGetDm\<close>, the image-download helper, \<^verbatim>\<open>dm\<close>, \<^verbatim>\<open>createWebhook\<close> and
  \<^verbatim>\<open>deleteWebhook\<close> is a single call of \<^verbatim>\<open>makeRequest\<close>; when the transport rejects its request, the operation
  prints the error on the error stream and rejects with the same error.
\<close>

theorem forwarders_dispatch:
  assumes "forwards op"
  shows "\<exists>endpoint m d.
           bot_call t c op = makeRequest t c endpoint m d
           \<and> (\<forall>tr e. t (sent tr) (api_request c endpoint m d) = Inl e \<longrightarrow>
                 bot_call t c op tr =
                   (Inl e, tr @ [Sent (api_request c endpoint m d),
                                 Console Stderr [LStr ''Discord API Error:'', error_detail e]]))"
proof -
  obtain endpoint m d where eq: "bot_call t c op = makeRequest t c endpoint m d"
    using forwards_makeRequest [OF assms] by blast
  have "\<forall>tr e. t (sent tr) (api_request c endpoint m d) = Inl e \<longrightarrow>
          bot_call t c op tr =
            (Inl e, tr @ [Sent (api_request c endpoint m d),
                          Console Stderr [LStr ''Discord API Error:'', error_detail e]])"
    by (simp add: eq makeRequest_apply)
  with eq show ?thesis by blast
qed

text \<open>\<^verbatim>\<open>kickMember\<close> against a server that answers 404.\<close>

theorem forwarders_dispatch_witness:
  "forwards (KickMember ''1'' ''2'')
   \<and> (\<exists>endpoint m d.
         bot_call mock_404 client_T (KickMember ''1'' ''2'') [] =
           (Inl err_404,
            [Sent (api_request client_T endpoint m d),
             Console Stderr [LStr ''Discord API Error:'', LVal unknown_user]]))"
proof -
  have f: "forwards (KickMember ''1'' ''2'')" by simp
  have d: "error_detail err_404 = LVal unknown_user"
    by (simp add: error_detail_def err_404_def unknown_user_def)
  have m: "mock_404 h q = Inl err_404" for h q by (simp add: mock_404_def)
  obtain endpoint v b where
    "\<forall>tr e. mock_404 (sent tr) (api_request client_T endpoint v b) = Inl e \<longrightarrow>
       bot_call mock_404 client_T (KickMember ''1'' ''2'') tr =
         (Inl e, tr @ [Sent (api_request client_T endpoint v b),
                       Console Stderr [LStr ''Discord API Error:'', error_detail e]])"
    using forwarders_dispatch [OF f, of mock_404 client_T] by blast
  then have "bot_call mock_404 client_T (KickMember ''1'' ''2'') [] =
      (Inl err_404, [] @ [Sent (api_request client_T endpoint v b),
                          Console Stderr [LStr ''Discord API Error:'', error_detail err_404]])"
    using m by blast
  with f show ?thesis by (auto simp: d)
qed

subsection \<open>C5: the failure policy of the webhook client\<close>

text \<open>
  Claim C5, as stated, fails for \<^verbatim>\<open>setWebhookOwner\<close>: it is not \<^verbatim>\<open>info\<close>, yet it has
  no handler, so an HTTP error rejects the call and nothing is printed.
\<close>

theorem setWebhookOwner_propagates_counterexample:
  "SetWebhookOwner ''7'' \<noteq> WhInfo
   \<and> webhook_call mock_404 no_files hook_w (SetWebhookOwner ''7'') [] =
     (Inl err_404,
      [Sent \<lparr>verb = PATCH, url = ''https://discord.com/api/webhooks/1/abc'',
             body = Json (JObj [(''owner_id'', JStr ''7'')]), headers = []\<rparr>])"
  by (simp add: setWebhookOwner_def io_simps mock_404_def hook_w_def)

text \<open>
  Claim C5, amended. Every operation of the webhook client other than \<^verbatim>\<open>info\<close> and
  the private \<^verbatim>\<open>setWebhookOwner\<close> resolves normally (to \<^verbatim>\<open>undefined\<close>) whatever the
  transport answers, provided the file it reads exists. It issues at least one request,
  and whichever of its requests the transport rejects, that request is its last one and
  the line of its own handler, holding the message of that error (or the error
  object), is printed right after it and is the last thing the operation does.
  \<^verbatim>\<open>info\<close> prints the message of the error and rejects with it.
\<close>

theorem webhook_failure_policy:
  assumes "swallows op" and "files_exist fs op"
  shows "fst (webhook_call t fs w op tr) = Inr JUndefined
     \<and> issued (webhook_call t fs w op) tr \<noteq> []
     \<and> (\<forall>qs q rest.
           issued (webhook_call t fs w op) tr = qs @ q # rest \<and> t (sent tr @ qs) q = Inl e \<longrightarrow>
           rest = []
           \<and> (\<exists>pre. snd (webhook_call t fs w op tr) = pre @ Sent q # handler_prints op e))
     \<and> (t (sent tr) \<lparr>verb = GET, url = webhookUrl w, body = Json JUndefined, headers = []\<rparr>
            = Inl e \<longrightarrow>
          webhook_call t fs w WhInfo tr =
            (Inl e,
             tr @ [Sent \<lparr>verb = GET, url = webhookUrl w, body = Json JUndefined,
                         headers = []\<rparr>,
                   Console Stderr [LStr ''Error fetching webhook information: '',
                                   LStr (message e)]]))"
proof -
  have "\<forall>qs q rest.
          issued (webhook_call t fs w op) tr = qs @ q # rest \<and> t (sent tr @ qs) q = Inl e \<longrightarrow>
          rest = []
          \<and> (\<exists>pre. snd (webhook_call t fs w op tr) = pre @ Sent q # handler_prints op e)"
    using swallows_prints_request [OF assms] by blast
  then show ?thesis
    using swallows_resolves [OF assms] swallows_issues [OF assms]
    by (simp add: info_wh_apply)
qed

text \<open>
  \<^verbatim>\<open>updateWebhook\<close> against a server that answers the first \<^verbatim>\<open>PATCH\<close> and rejects the
  second, \<^verbatim>\<open>sendMessage\<close> against a server that rejects the \<^verbatim>\<open>POST\<close> only, and
  \<^verbatim>\<open>info\<close> against a server that answers 404.
\<close>

theorem webhook_failure_policy_witness:
  "fst (webhook_call mock_first_only one_file hook_w (UpdateWebhook ''/tmp/a.txt'' ''bot'') [])
     = Inr JUndefined
   \<and> (\<exists>pre.
        snd (webhook_call mock_first_only one_file hook_w (UpdateWebhook ''/tmp/a.txt'' ''bot'') [])
          = pre @ [Sent \<lparr>verb = PATCH, url = ''https://discord.com/api/webhooks/1/abc'',
                         body = Json (JObj [(''name'', JStr ''bot'')]), headers = []\<rparr>,
                   Console Stderr [LStr ''Error updating webhook:'', LErr err_404]])
   \<and> fst (webhook_call mock_get_only no_files hook_w (WhSendMessage ''hi'') []) = Inr JUndefined
   \<and> (\<exists>pre.
        snd (webhook_call mock_get_only no_files hook_w (WhSendMessage ''hi'') [])
          = pre @ [Sent \<lparr>verb = POST, url = ''https://discord.com/api/webhooks/1/abc'',
                         body = Json (JObj [(''content'', JStr ''hi'')]), headers = []\<rparr>,
                   Console Stderr [LStr ''Error sending message. Status: '',
                                   LStr ''Request failed with status code 404'']])
   \<and> webhook_call mock_404 one_file hook_w WhInfo [] =
       (Inl err_404,
        [Sent \<lparr>verb = GET, url = ''https://discord.com/api/webhooks/1/abc'',
               body = Json JUndefined, headers = []\<rparr>,
         Console Stderr [LStr ''Error fetching webhook information: '',
                         LStr ''Request failed with status code 404'']])"
proof -
  let ?avatar = "\<lparr>verb = PATCH, url = ''https://discord.com/api/webhooks/1/abc'',
             body = Json (JObj [(''avatar'', JStr ''data:image/jpeg;base64,aGVsbG8='')]),
             headers = []\<rparr>"
  let ?name = "\<lparr>verb = PATCH, url = ''https://discord.com/api/webhooks/1/abc'',
             body = Json (JObj [(''name'', JStr ''bot'')]), headers = []\<rparr>"
  let ?post = "\<lparr>verb = POST, url = ''https://discord.com/api/webhooks/1/abc'',
             body = Json (JObj [(''content'', JStr ''hi'')]), headers = []\<rparr>"
  have s1: "swallows (UpdateWebhook ''/tmp/a.txt'' ''bot'')" by simp
  have f1: "files_exist one_file (UpdateWebhook ''/tmp/a.txt'' ''bot'')"
    by (simp add: one_file_def)
  have i1: "issued (webhook_call mock_first_only one_file hook_w
               (UpdateWebhook ''/tmp/a.txt'' ''bot'')) [] = [?avatar] @ ?name # []"
    by (rule issued_eq) (simp add: updateWebhook_mock_first_only)
  have r1: "mock_first_only (sent [] @ [?avatar]) ?name = Inl err_404"
    by (simp add: mock_first_only_def)
  have s2: "swallows (WhSendMessage ''hi'')" by simp
  have f2: "files_exist no_files (WhSendMessage ''hi'')" by simp
  have i2: "issued (webhook_call mock_get_only no_files hook_w (WhSendMessage ''hi'')) []
      = [] @ ?post # []"
    by (rule issued_eq) (simp add: sendMessage_wh_mock_get_only)
  have r2: "mock_get_only (sent [] @ []) ?post = Inl err_404"
    by (simp add: mock_get_only_def)
  have m: "mock_404 h q = Inl err_404" for h q by (simp add: mock_404_def)
  note p1 = webhook_failure_policy [OF s1 f1, of mock_first_only hook_w "[]" err_404]
  note p2 = webhook_failure_policy [OF s2 f2, of mock_get_only hook_w "[]" err_404]
  note p3 = webhook_failure_policy [OF s1 f1, of mock_404 hook_w "[]" err_404]
  from p1 i1 r1 have "\<exists>pre.
      snd (webhook_call mock_first_only one_file hook_w (UpdateWebhook ''/tmp/a.txt'' ''bot'') [])
        = pre @ Sent ?name # handler_prints (UpdateWebhook ''/tmp/a.txt'' ''bot'') err_404"
    by blast
  then have e1: "\<exists>pre.
      snd (webhook_call mock_first_only one_file hook_w (UpdateWebhook ''/tmp/a.txt'' ''bot'') [])
        = pre @ [Sent ?name, Console Stderr [LStr ''Error updating webhook:'', LErr err_404]]"
    by simp
  from p2 i2 r2 have "\<exists>pre.
      snd (webhook_call mock_get_only no_files hook_w (WhSendMessage ''hi'') [])
        = pre @ Sent ?post # handler_prints (WhSendMessage ''hi'') err_404"
    by blast
  then have e2: "\<exists>pre.
      snd (webhook_call mock_get_only no_files hook_w (WhSendMessage ''hi'') [])
        = pre @ [Sent ?post,
                 Console Stderr [LStr ''Error sending message. Status: '',
                                 LStr ''Request failed with status code 404'']]"
    by (simp add: err_404_def)
  from p3 m have e3: "webhook_call mock_404 one_file hook_w WhInfo [] =
       (Inl err_404,
        [Sent \<lparr>verb = GET, url = ''https://discord.com/api/webhooks/1/abc'',
               body = Json JUndefined, headers = []\<rparr>,
         Console Stderr [LStr ''Error fetching webhook information: '',
                         LStr ''Request failed with status code 404'']])"
    by (simp add: hook_w_def err_404_def)
  from p1 have r1': "fst (webhook_call mock_first_only one_file hook_w
      (UpdateWebhook ''/tmp/a.txt'' ''bot'') []) = Inr JUndefined" by blast
  from p2 have r2': "fst (webhook_call mock_get_only no_files hook_w (WhSendMessage ''hi'') [])
      = Inr JUndefined" by blast
  from r1' e1 r2' e2 e3 show ?thesis by blast
qed

subsection \<open>C6: construction with an empty credential\<close>

text \<open>
  Claim C6, as stated, fails for the bot client: its constructor stores the token
  unchecked, so construction with the empty token succeeds.
\<close>

theorem bot_constructor_accepts_empty_token_counterexample:
  "fst (new_Client [] None []) = Inr \<lparr>token = [], logging = True\<rparr>
   \<and> fst (new_Client [] (Some True) []) = Inr \<lparr>token = [], logging = True\<rparr>"
  by (simp add: new_Client_def Let_def io_simps)

text \<open>
  Claim C6, amended. Constructing the webhook client with an empty webhook URL fails at
  once with the error \<^verbatim>\<open>No webhook URL provided\<close>. The constructor of the bot client
  never fails: it yields a client that holds the token it was given, the empty one
  included.
\<close>

theorem constructors_on_empty_credential:
  "new_WebhookUtils [] =
     Inl \<lparr>kind = PlainError, message = ''No webhook URL provided'', response = None\<rparr>
   \<and> (\<exists>c. fst (new_Client tok logs tr) = Inr c \<and> token c = tok)"
  by (cases logs) (simp_all add: new_WebhookUtils_def new_Client_def Let_def io_simps)

subsection \<open>C7: \<^verbatim>\<open>dm\<close> sends once\<close>



subsection \<open>C8: \<^verbatim>\<open>sendFile\<close> on a missing file\<close>

text \<open>
  Claim C8, as stated, fails in its last part: the read of the missing file raises, but
  inside the \<^verbatim>\<open>try\<close> block of \<^verbatim>\<open>sendFile\<close>, so the operation itself does not fail;
  it resolves normally.
\<close>

theorem sendFile_returns_normally_counterexample:
  "readFileSync no_files ''/nope.txt'' = Inl (enoent ''open'' ''/nope.txt'')
   \<and> fst (sendFile mock_200 no_files hook_w ''hi'' ''/nope.txt'' []) = Inr JUndefined"
  by (simp add: sendFile_def io_simps readFileSync_def no_files_def)

text \<open>
  Claim C8, amended. When \<^verbatim>\<open>sendFile\<close> is called with a path that does not exist, the
  file read raises the file-not-found error before any network call: no request is
  issued. The handler of \<^verbatim>\<open>sendFile\<close> catches the error and prints its message on the
  error stream, and the call resolves normally.
\<close>

theorem sendFile_missing_file:
  assumes "fs filePath = None"
  shows "sendFile t fs w msg filePath tr =
           (Inr JUndefined,
            tr @ [Console Stderr [LStr ''Error sending file to Discord: '',
                                  LStr (message (enoent ''open'' filePath))]])
     \<and> issued (sendFile t fs w msg filePath) tr = []"
proof -
  have r: "sendFile t fs w msg filePath tr =
           (Inr JUndefined,
            tr @ [Console Stderr [LStr ''Error sending file to Discord: '',
                                  LStr (message (enoent ''open'' filePath))]])"
    using assms by (simp add: sendFile_def io_simps readFileSync_def)
  then have "issued (sendFile t fs w msg filePath) tr = []"
    by (intro issued_eq) (simp add: sent_append)
  with r show ?thesis by simp
qed

text \<open>A file system that holds \<^verbatim>\<open>/tmp/a.txt\<close> only, and a send of \<^verbatim>\<open>/tmp/b.txt\<close>.\<close>

theorem sendFile_missing_file_witness:
  "sendFile mock_200 one_file hook_w ''hi'' ''/tmp/b.txt'' [] =
     (Inr JUndefined,
      [Console Stderr
         [LStr ''Error sending file to Discord: '',
          LStr (''ENOENT: no such file or directory, open '' @ [CHR 0x27] @ ''/tmp/b.txt''
                  @ [CHR 0x27])]])
   \<and> issued (sendFile mock_200 one_file hook_w ''hi'' ''/tmp/b.txt'') [] = []"
proof -
  have f: "one_file ''/tmp/b.txt'' = None" by (simp add: one_file_def)
  show ?thesis
    using sendFile_missing_file [where fs = one_file and filePath = "''/tmp/b.txt''"
        and t = mock_200 and w = hook_w and msg = "''hi''" and tr = "[]"] f
    by (simp add: enoent_def)
qed

subsection \<open>C9: the logging flag\<close>

text \<open>
  Claim C9. The constructor of the bot client ends with the logging flag set, whatever
  the \<^verbatim>\<open>logs\<close> argument: \<^verbatim>\<open>true\<close> keeps it, \<^verbatim>\<open>false\<close> (and an omitted
  argument, which defaults to \<^verbatim>\<open>false\<close>) prints the notice and then sets the flag to
  \<^verbatim>\<open>true\<close>. Passing \<^verbatim>\<open>false\<close> does not disable logging.
\<close>

theorem constructor_logging_always_enabled:
  "new_Client tok logs tr =
     (Inr \<lparr>token = tok, logging = True\<rparr>,
      if logs = Some True then tr else tr @ [Console Stdout [LStr logs_notice]])"
  by (cases logs) (simp_all add: new_Client_def Let_def io_simps)

subsection \<open>C10: the unchecked read of \<^verbatim>\<open>recipients[0]\<close>\<close>

text \<open>
  Claim C10. \<^verbatim>\<open>isDmOpen\<close> reads \<^verbatim>\<open>recipients[0].id\<close> of the type-1 channels it
  visits without checking that the array is non-empty. On a fetched list of channel
  objects the call is free of the resulting \<^verbatim>\<open>TypeError\<close> for every \<open>userId\<close>
  exactly when every channel of type 1 in the list has at least one recipient.
\<close>

theorem isDmOpen_recipients_precondition:
  assumes "t (sent tr) (dm_list_request c) = Inr r"
    and "dec_channels (data r) = Some chs"
  shows "(\<forall>userId. \<exists>v. fst (isDmOpen t c userId tr) = Inr v)
     \<longleftrightarrow> (\<forall>ch\<in>set chs. ch_type ch = 1 \<longrightarrow> ch_recipients ch \<noteq> [])"
proof
  from assms(2) obtain vs
    where vs: "data r = JArr vs" "List.those (map dec_channel vs) = Some chs"
    using dec_channels_JArr by blast
  assume safe: "\<forall>userId. \<exists>v. fst (isDmOpen t c userId tr) = Inr v"
  show "\<forall>ch\<in>set chs. ch_type ch = 1 \<longrightarrow> ch_recipients ch \<noteq> []"
  proof (rule ccontr)
    assume "\<not> (\<forall>ch\<in>set chs. ch_type ch = 1 \<longrightarrow> ch_recipients ch \<noteq> [])"
    then have bad: "\<exists>ch\<in>set chs. ch_type ch = 1 \<and> ch_recipients ch = []" by blast
    obtain u where u: "u \<notin> set (concat (map ch_recipients chs))"
      using fresh_string by blast
    have "\<forall>ch\<in>set chs. take 1 (ch_recipients ch) \<noteq> [u]"
    proof
      fix ch assume "ch \<in> set chs"
      with u have "u \<notin> set (ch_recipients ch)" by auto
      then show "take 1 (ch_recipients ch) \<noteq> [u]"
        by (cases "ch_recipients ch") auto
    qed
    with vs(2) bad have "find_js (is_dm_with u) vs =
        Inl (type_error (cannot_read ''undefined'' ''id''))"
      by (rule lookup_dec_unsafe)
    with assms(1) vs(1) have "\<exists>e. fst (isDmOpen t c u tr) = Inl e"
      by (simp add: isDmOpen_apply data_find_def)
    with safe show False by (metis Inl_Inr_False)
  qed
next
  from assms(2) obtain vs
    where vs: "data r = JArr vs" "List.those (map dec_channel vs) = Some chs"
    using dec_channels_JArr by blast
  assume ok: "\<forall>ch\<in>set chs. ch_type ch = 1 \<longrightarrow> ch_recipients ch \<noteq> []"
  show "\<forall>userId. \<exists>v. fst (isDmOpen t c userId tr) = Inr v"
  proof
    fix userId
    show "\<exists>v. fst (isDmOpen t c userId tr) = Inr v"
      using lookup_dec [OF vs(2) ok, of userId] assms(1) vs(1)
      by (auto simp: isDmOpen_apply data_find_def split: sum.splits if_splits)
  qed
qed

text \<open>
  A list whose only type-1 channel has a recipient is safe for every user; a list
  with a type-1 channel without recipients is not.
\<close>

theorem isDmOpen_recipients_precondition_witness:
  "(\<forall>userId. \<exists>v. fst (isDmOpen (mock_dm [ch_group, ch_dm7]) client_T userId []) = Inr v)
   \<and> \<not> (\<forall>userId. \<exists>v. fst (isDmOpen (mock_dm [ch_dm7, ch_nobody]) client_T userId []) = Inr v)"
  using isDmOpen_recipients_precondition [where t = "mock_dm [ch_group, ch_dm7]" and tr = "[]"
      and c = client_T and r = "ok_response (JArr (map enc_channel [ch_group, ch_dm7]))"
      and chs = "[ch_group, ch_dm7]"]
    isDmOpen_recipients_precondition [where t = "mock_dm [ch_dm7, ch_nobody]" and tr = "[]"
      and c = client_T and r = "ok_response (JArr (map enc_channel [ch_dm7, ch_nobody]))"
      and chs = "[ch_dm7, ch_nobody]"]
    dec_channels_enc [of "[ch_group, ch_dm7]"] dec_channels_enc [of "[ch_dm7, ch_nobody]"]
  by (simp add: mock_dm_def dm_list_request_def ok_response_def ch_group_def ch_dm7_def
      ch_nobody_def)

end
